theory Spec2Isabelle
  imports Main
begin

section \<open>Texts and Python values\<close>

text \<open>
  A Python \<open>str\<close> is a sequence of Unicode code points; it is modelled as a list of
  natural numbers, one per code point. Literals are written \<open>str ''...''\<close>.
\<close>

type_synonym pystr = "nat list"

abbreviation str :: "string \<Rightarrow> pystr" where
  "str s \<equiv> map of_char s"

text \<open>
  The characters matched by \<open>\s\<close> in a \<open>str\<close> pattern of the \<open>re\<close> module and removed by
  \<open>str.strip()\<close>: the code points for which \<open>str.isspace()\<close> holds.
\<close>

definition is_space :: "nat \<Rightarrow> bool" where
  "is_space c \<longleftrightarrow>
     (9 \<le> c \<and> c \<le> 13) \<or> (28 \<le> c \<and> c \<le> 32) \<or> c = 133 \<or> c = 160 \<or> c = 5760 \<or>
     (8192 \<le> c \<and> c \<le> 8202) \<or> c = 8232 \<or> c = 8233 \<or> c = 8239 \<or> c = 8287 \<or> c = 12288"

text \<open>
  The values \<open>json.loads\<close> can return (and the ones \<open>eval\<close> returns on a literal):
  \<open>None\<close>, booleans, integers, floats (kept as their lexeme), strings, lists, and
  dictionaries with string keys in insertion order. \<open>PyOther\<close> stands for any other
  object an evaluated expression may yield; it is neither a mapping nor a string nor a
  list.
\<close>

datatype pyval =
    PyNone
  | PyBool bool
  | PyInt int
  | PyFloat pystr
  | PyStr pystr
  | PyList "pyval list"
  | PyDict "(pystr \<times> pyval) list"
  | PyOther

text \<open>The exceptions that occur in the two scripts, each a subclass of \<open>Exception\<close>.\<close>

datatype exn =
    JSONDecodeError
  | TypeError
  | ValidationError
  | ServiceError pystr
  | EvalError pystr

section \<open>The structured-output extractor (app.py)\<close>

subsection \<open>The fenced pattern\<close>

text \<open>
  \<open>re.search(r"```(?:json)?\s*(\{.*?\})\s*```", text, flags=re.DOTALL)\<close>.
  The functions follow the backtracking matcher: every start position from left to
  right; at one position, the literal fence, the optional tag (tried first with the tag,
  then without), the greedy white space, the opening brace, and the lazy body, which
  stops at the first closing brace after which \<open>\s*```\<close> matches.
\<close>

definition BACKTICK :: nat where "BACKTICK = 96"
definition LBRACE :: nat where "LBRACE = 123"
definition RBRACE :: nat where "RBRACE = 125"

definition starts_with :: "pystr \<Rightarrow> pystr \<Rightarrow> bool" where
  "starts_with p s \<longleftrightarrow> take (length p) s = p"

definition fence :: pystr where
  "fence = [BACKTICK, BACKTICK, BACKTICK]"

text \<open>\<open>\s*```\<close> at the start of \<open>s\<close>: white space is never a backtick, so giving back
  white space cannot help and the greedy run is the only candidate.\<close>

definition closes_fence :: "pystr \<Rightarrow> bool" where
  "closes_fence s \<longleftrightarrow> starts_with fence (dropWhile is_space s)"

text \<open>\<open>.*?\}\s*```\<close>: the shortest prefix of \<open>s\<close> that ends with a closing brace
  followed by \<open>\s*```\<close>; \<open>None\<close> when there is none.\<close>

fun lazy_body :: "pystr \<Rightarrow> pystr option" where
  "lazy_body [] = None"
| "lazy_body (c # cs) =
     (if c = RBRACE \<and> closes_fence cs then Some [c]
      else map_option ((#) c) (lazy_body cs))"

text \<open>\<open>\s*(\{.*?\})\s*```\<close> at the start of \<open>s\<close>, giving group 1.\<close>

definition fence_body :: "pystr \<Rightarrow> pystr option" where
  "fence_body s =
     (case dropWhile is_space s of
        [] \<Rightarrow> None
      | c # cs \<Rightarrow> if c = LBRACE then map_option ((#) c) (lazy_body cs) else None)"

text \<open>The whole pattern anchored at the start of \<open>s\<close>.\<close>

definition fence_at :: "pystr \<Rightarrow> pystr option" where
  "fence_at s =
     (if starts_with fence s then
        (let r = drop 3 s in
         case (if starts_with (str ''json'') r then fence_body (drop 4 r) else None) of
           Some g \<Rightarrow> Some g
         | None \<Rightarrow> fence_body r)
      else None)"

fun search_fence :: "pystr \<Rightarrow> pystr option" where
  "search_fence [] = None"
| "search_fence (c # cs) =
     (case fence_at (c # cs) of Some g \<Rightarrow> Some g | None \<Rightarrow> search_fence cs)"

subsection \<open>The brace pattern\<close>

text \<open>
  \<open>re.search(r"(\{.*\})", text, flags=re.DOTALL)\<close>: from the leftmost opening brace that
  has a closing brace after it, greedily to the last closing brace of the text.
\<close>

fun greedy_body :: "pystr \<Rightarrow> pystr option" where
  "greedy_body [] = None"
| "greedy_body (c # cs) =
     (case greedy_body cs of
        Some r \<Rightarrow> Some (c # r)
      | None \<Rightarrow> if c = RBRACE then Some [c] else None)"

fun search_brace :: "pystr \<Rightarrow> pystr option" where
  "search_brace [] = None"
| "search_brace (c # cs) =
     (case (if c = LBRACE then map_option ((#) c) (greedy_body cs) else None) of
        Some g \<Rightarrow> Some g
      | None \<Rightarrow> search_brace cs)"

subsection \<open>extract_json and safe_json_parse\<close>

definition extract_json :: "pystr \<Rightarrow> pystr option" where
  "extract_json text =
     (if text = [] then None
      else case search_fence text of
             Some g \<Rightarrow> Some g
           | None \<Rightarrow> search_brace text)"

text \<open>\<open>extract_json(plan_text) or plan_text\<close>: \<open>None\<close> and the empty string are falsy.\<close>

definition payload :: "pystr \<Rightarrow> pystr" where
  "payload plan_text =
     (case extract_json plan_text of
        None \<Rightarrow> plan_text
      | Some p \<Rightarrow> if p = [] then plan_text else p)"

text \<open>
  \<open>json.loads\<close> belongs to the standard library; it is a parameter \<open>loads\<close>, which
  returns the decoded value or the exception it raised. The \<open>except Exception\<close> clause
  turns every exception into the fallback.
\<close>

definition safe_json_parse :: "(pystr \<Rightarrow> exn + pyval) \<Rightarrow> pystr \<Rightarrow> pyval \<Rightarrow> pyval" where
  "safe_json_parse loads plan_text fallback =
     (case loads (payload plan_text) of
        Inr v \<Rightarrow> v
      | Inl e \<Rightarrow> fallback)"

section \<open>A model of the standard JSON decoder\<close>

text \<open>
  The theorems below hold for every decoder \<open>loads\<close>. To run the scripts on concrete
  texts, \<open>json_loads\<close> models \<open>json.loads\<close> of the standard library with its default
  arguments: a lexer for the JSON tokens (with the decoder's literals \<open>NaN\<close>, \<open>Infinity\<close>
  and \<open>-Infinity\<close>), and a parser that keeps the open containers on a stack.
\<close>

datatype token = TLBrace | TRBrace | TLBrack | TRBrack | TComma | TColon | TScalar pyval

definition is_digit :: "nat \<Rightarrow> bool" where
  "is_digit c \<longleftrightarrow> 48 \<le> c \<and> c \<le> 57"

definition is_json_ws :: "nat \<Rightarrow> bool" where
  "is_json_ws c \<longleftrightarrow> c = 32 \<or> c = 9 \<or> c = 10 \<or> c = 13"

definition hex_val :: "nat \<Rightarrow> nat option" where
  "hex_val c =
     (if 48 \<le> c \<and> c \<le> 57 then Some (c - 48)
      else if 97 \<le> c \<and> c \<le> 102 then Some (c - 87)
      else if 65 \<le> c \<and> c \<le> 70 then Some (c - 55)
      else None)"

definition hex4 :: "nat \<Rightarrow> nat \<Rightarrow> nat \<Rightarrow> nat \<Rightarrow> nat option" where
  "hex4 a b c d =
     (case (hex_val a, hex_val b, hex_val c, hex_val d) of
        (Some x, Some y, Some z, Some u) \<Rightarrow> Some (((x * 16 + y) * 16 + z) * 16 + u)
      | _ \<Rightarrow> None)"

definition simple_escape :: "nat \<Rightarrow> nat option" where
  "simple_escape e =
     (if e = 34 then Some 34 else if e = 92 then Some 92 else if e = 47 then Some 47
      else if e = 98 then Some 8 else if e = 102 then Some 12 else if e = 110 then Some 10
      else if e = 114 then Some 13 else if e = 116 then Some 9 else None)"

text \<open>The code point of a high surrogate \<open>h\<close> followed by the escape \<open>\uXXXX\<close> of a low
  surrogate, given as its six characters.\<close>

definition surrogate_pair :: "nat \<Rightarrow> pystr \<Rightarrow> nat option" where
  "surrogate_pair h six =
     (case six of
        [bs, u, a, b, c, d] \<Rightarrow>
          (if 55296 \<le> h \<and> h \<le> 56319 \<and> bs = 92 \<and> u = 117 then
             (case hex4 a b c d of
                Some l \<Rightarrow>
                  if 56320 \<le> l \<and> l \<le> 57343
                  then Some (65536 + (h - 55296) * 1024 + (l - 56320)) else None
              | None \<Rightarrow> None)
           else None)
      | _ \<Rightarrow> None)"

text \<open>An escape sequence, given the text after the backslash: the code point it denotes
  and the text after it. A high surrogate escape followed by a low one is one code
  point.\<close>

definition scan_escape :: "pystr \<Rightarrow> (nat \<times> pystr) option" where
  "scan_escape s =
     (case s of
        [] \<Rightarrow> None
      | e # es \<Rightarrow>
          if e = 117 then
            (case es of
               a # b # x # d # r \<Rightarrow>
                 (case hex4 a b x d of
                    None \<Rightarrow> None
                  | Some h \<Rightarrow>
                      (case surrogate_pair h (take 6 r) of
                         Some cp \<Rightarrow> Some (cp, drop 6 r)
                       | None \<Rightarrow> Some (h, r)))
             | _ \<Rightarrow> None)
          else map_option (\<lambda>ch. (ch, es)) (simple_escape e))"

lemma scan_escape_shorter: "scan_escape s = Some (ch, r) \<Longrightarrow> length r < length s"
  by (auto simp: scan_escape_def split: list.splits if_splits option.splits)

text \<open>The text after the opening quote: the decoded string and what follows the closing
  quote. Control characters are rejected (\<open>strict=True\<close>).\<close>

function scan_string :: "pystr \<Rightarrow> (pystr \<times> pystr) option" where
  "scan_string [] = None"
| "scan_string (c # cs) =
     (if c = 34 then Some ([], cs)
      else if c = 92 then
        (case scan_escape cs of
           None \<Rightarrow> None
         | Some (ch, r) \<Rightarrow> map_option (apfst ((#) ch)) (scan_string r))
      else if c < 32 then None
      else map_option (apfst ((#) c)) (scan_string cs))"
  by pat_completeness auto
termination
proof (relation "measure length")
  show "wf (measure length)" by simp
next
  fix c cs x ch r
  assume "scan_escape cs = Some x" and "(ch, r) = x"
  then have "length r < length cs"
    using scan_escape_shorter [of cs ch r] by simp
  then show "(r, c # cs) \<in> measure length" by simp
next
  fix c :: nat and cs :: pystr
  show "(cs, c # cs) \<in> measure length" by simp
qed

lemma scan_string_shorter: "scan_string s = Some (t, r) \<Longrightarrow> length r < length s"
proof (induction s arbitrary: t r rule: scan_string.induct)
  case 1
  then show ?case by simp
next
  case (2 c cs)
  show ?case
  proof (cases "c = 34")
    case True
    with 2(3) show ?thesis by simp
  next
    case q: False
    show ?thesis
    proof (cases "c = 92")
      case True
      with q 2(3) obtain ch r' t' where e: "scan_escape cs = Some (ch, r')"
        and s: "scan_string r' = Some (t', r)"
        by (auto split: option.splits)
      from 2(1) [OF q True e refl s] have "length r < length r'" .
      with scan_escape_shorter [OF e] show ?thesis by simp
    next
      case b: False
      with q 2(3) obtain t' where c: "\<not> c < 32" and s: "scan_string cs = Some (t', r)"
        by (auto split: if_splits)
      from 2(2) [OF q b c s] show ?thesis by simp
    qed
  qed
qed

text \<open>
  A number at the start of the text, by the decoder's pattern
  \<open>(-?(?:0|[1-9][0-9]*))(\.[0-9]+)?([eE][-+]?[0-9]+)?\<close>: an \<open>int\<close> when there is neither
  fraction nor exponent, a \<open>float\<close> otherwise.
\<close>

definition digits_val :: "pystr \<Rightarrow> nat" where
  "digits_val ds = foldl (\<lambda>n d. 10 * n + (d - 48)) 0 ds"

definition scan_int_part :: "pystr \<Rightarrow> (pystr \<times> pystr) option" where
  "scan_int_part s =
     (case s of
        [] \<Rightarrow> None
      | d # r \<Rightarrow>
          if d = 48 then Some ([d], r)
          else if 49 \<le> d \<and> d \<le> 57 then Some (d # takeWhile is_digit r, dropWhile is_digit r)
          else None)"

definition scan_frac :: "pystr \<Rightarrow> pystr \<times> pystr" where
  "scan_frac s =
     (case s of
        [] \<Rightarrow> ([], s)
      | p # r \<Rightarrow>
          if p = 46 \<and> takeWhile is_digit r \<noteq> []
          then (p # takeWhile is_digit r, dropWhile is_digit r) else ([], s))"

definition scan_exp :: "pystr \<Rightarrow> pystr \<times> pystr" where
  "scan_exp s =
     (case s of
        [] \<Rightarrow> ([], s)
      | e # r \<Rightarrow>
          if e = 101 \<or> e = 69 then
            (let (sign, r') = (case r of
                                 [] \<Rightarrow> ([], r)
                               | g # r'' \<Rightarrow> if g = 45 \<or> g = 43 then ([g], r'') else ([], r))
             in if takeWhile is_digit r' \<noteq> []
                then (e # sign @ takeWhile is_digit r', dropWhile is_digit r') else ([], s))
          else ([], s))"

definition scan_number :: "pystr \<Rightarrow> (pyval \<times> pystr) option" where
  "scan_number s =
     (let (sign, s1) = (case s of
                          [] \<Rightarrow> ([], s)
                        | m # r \<Rightarrow> if m = 45 then ([m], r) else ([], s))
      in case scan_int_part s1 of
           None \<Rightarrow> None
         | Some (ds, s2) \<Rightarrow>
             (let (frac, s3) = scan_frac s2; (ex, s4) = scan_exp s3
              in if frac = [] \<and> ex = []
                 then Some (PyInt (if sign = [] then int (digits_val ds) else - int (digits_val ds)), s4)
                 else Some (PyFloat (sign @ ds @ frac @ ex), s4)))"

text \<open>One token at the start of a text that does not begin with white space.\<close>

definition next_token :: "pystr \<Rightarrow> (token \<times> pystr) option" where
  "next_token s =
     (case s of
        [] \<Rightarrow> None
      | c # cs \<Rightarrow>
          if c = 123 then Some (TLBrace, cs)
          else if c = 125 then Some (TRBrace, cs)
          else if c = 91 then Some (TLBrack, cs)
          else if c = 93 then Some (TRBrack, cs)
          else if c = 44 then Some (TComma, cs)
          else if c = 58 then Some (TColon, cs)
          else if c = 34 then map_option (apfst (\<lambda>t. TScalar (PyStr t))) (scan_string cs)
          else if starts_with (str ''null'') s then Some (TScalar PyNone, drop 4 s)
          else if starts_with (str ''true'') s then Some (TScalar (PyBool True), drop 4 s)
          else if starts_with (str ''false'') s then Some (TScalar (PyBool False), drop 5 s)
          else if starts_with (str ''NaN'') s then Some (TScalar (PyFloat (str ''NaN'')), drop 3 s)
          else if starts_with (str ''Infinity'') s
            then Some (TScalar (PyFloat (str ''Infinity'')), drop 8 s)
          else if starts_with (str ''-Infinity'') s
            then Some (TScalar (PyFloat (str ''-Infinity'')), drop 9 s)
          else map_option (apfst TScalar) (scan_number s))"

lemma scan_int_part_shorter: "scan_int_part s = Some (ds, r) \<Longrightarrow> length r < length s"
  by (cases s) (auto simp: scan_int_part_def less_Suc_eq_le length_dropWhile_le split: if_splits)

lemma scan_frac_shorter: "length (snd (scan_frac s)) \<le> length s"
  by (cases s) (auto simp: scan_frac_def intro: le_trans [OF length_dropWhile_le])

lemma scan_exp_shorter: "length (snd (scan_exp s)) \<le> length s"
proof (cases s)
  case Nil
  then show ?thesis by (simp add: scan_exp_def)
next
  case (Cons e r)
  show ?thesis
  proof (cases r)
    case Nil
    with Cons show ?thesis by (simp add: scan_exp_def)
  next
    case (Cons g r'')
    have a: "length (dropWhile is_digit r'') \<le> length r''" by (rule length_dropWhile_le)
    have b: "length (dropWhile is_digit (g # r'')) \<le> Suc (length r'')"
      using length_dropWhile_le [of is_digit "g # r''"] by simp
    from \<open>s = e # r\<close> Cons a b show ?thesis
      by (simp add: scan_exp_def Let_def del: dropWhile.simps)
  qed
qed

lemma scan_number_shorter: "scan_number s = Some (v, r) \<Longrightarrow> length r < length s"
proof -
  assume a: "scan_number s = Some (v, r)"
  define s1 where "s1 = (case s of [] \<Rightarrow> s | m # r \<Rightarrow> if m = 45 then r else s)"
  have s1: "length s1 \<le> length s" by (cases s) (auto simp: s1_def)
  from a obtain ds s2 where i: "scan_int_part s1 = Some (ds, s2)"
    and r: "r = snd (scan_exp (snd (scan_frac s2)))"
    by (cases s) (auto simp: scan_number_def s1_def Let_def split: option.splits prod.splits if_splits)
  have "length r \<le> length (snd (scan_frac s2))" unfolding r by (rule scan_exp_shorter)
  also have "\<dots> \<le> length s2" by (rule scan_frac_shorter)
  also have "\<dots> < length s1" using i by (rule scan_int_part_shorter)
  finally show ?thesis using s1 by simp
qed

lemma next_token_shorter: "next_token s = Some (t, r) \<Longrightarrow> length r < length s"
  by (auto simp: next_token_def starts_with_def
           split: list.splits if_splits
           dest: scan_string_shorter scan_number_shorter)

function tokenize :: "pystr \<Rightarrow> token list option" where
  "tokenize s =
     (case dropWhile is_json_ws s of
        [] \<Rightarrow> Some []
      | c # cs \<Rightarrow>
          (case next_token (c # cs) of
             None \<Rightarrow> None
           | Some (t, r) \<Rightarrow> map_option ((#) t) (tokenize r)))"
  by pat_completeness auto
termination
proof (relation "measure length")
  show "wf (measure length)" by simp
next
  fix s c cs x t r
  assume d: "dropWhile is_json_ws s = c # cs" and n: "next_token (c # cs) = Some x"
    and x: "(t, r) = x"
  from n x have "length r < length (c # cs)"
    using next_token_shorter [of "c # cs" t r] by simp
  also have "length (c # cs) \<le> length s"
    using length_dropWhile_le [of is_json_ws s] d by simp
  finally show "(r, s) \<in> measure length" by simp
qed

text \<open>
  The parser reads the tokens one at a time. \<open>frame\<close> is an open container: a list with
  its items so far, a dictionary waiting for a key, or a dictionary holding a key and
  waiting for its value. A key that occurs again keeps its place and takes the new value,
  as in a Python \<open>dict\<close>.
\<close>

fun dict_set :: "pystr \<Rightarrow> pyval \<Rightarrow> (pystr \<times> pyval) list \<Rightarrow> (pystr \<times> pyval) list" where
  "dict_set k v [] = [(k, v)]"
| "dict_set k v ((k', v') # kvs) =
     (if k = k' then (k, v) # kvs else (k', v') # dict_set k v kvs)"

datatype frame =
    FList "pyval list"
  | FDict "(pystr \<times> pyval) list"
  | FDictKey "(pystr \<times> pyval) list" pystr

datatype mode =
    WantValue
  | WantValueOrClose
  | WantKeyOrClose
  | WantKey
  | WantColon
  | Have pyval

text \<open>The start of a value, common to the modes that accept one.\<close>

fun open_value :: "token \<Rightarrow> frame list \<Rightarrow> (mode \<times> frame list) option" where
  "open_value (TScalar v) st = Some (Have v, st)"
| "open_value TLBrack st = Some (WantValueOrClose, FList [] # st)"
| "open_value TLBrace st = Some (WantKeyOrClose, FDict [] # st)"
| "open_value _ st = None"

fun open_key :: "token \<Rightarrow> frame list \<Rightarrow> (mode \<times> frame list) option" where
  "open_key (TScalar (PyStr k)) (FDict kvs # st) = Some (WantColon, FDictKey kvs k # st)"
| "open_key _ _ = None"

fun feed :: "mode \<times> frame list \<Rightarrow> token \<Rightarrow> (mode \<times> frame list) option" where
  "feed (WantValue, st) t = open_value t st"
| "feed (WantValueOrClose, st) t =
     (case (t, st) of
        (TRBrack, FList xs # st') \<Rightarrow> Some (Have (PyList xs), st')
      | _ \<Rightarrow> open_value t st)"
| "feed (WantKeyOrClose, st) t =
     (case (t, st) of
        (TRBrace, FDict kvs # st') \<Rightarrow> Some (Have (PyDict kvs), st')
      | _ \<Rightarrow> open_key t st)"
| "feed (WantKey, st) t = open_key t st"
| "feed (WantColon, st) t = (case t of TColon \<Rightarrow> Some (WantValue, st) | _ \<Rightarrow> None)"
| "feed (Have v, st) t =
     (case (t, st) of
        (TComma, FList xs # st') \<Rightarrow> Some (WantValue, FList (xs @ [v]) # st')
      | (TRBrack, FList xs # st') \<Rightarrow> Some (Have (PyList (xs @ [v])), st')
      | (TComma, FDictKey kvs k # st') \<Rightarrow> Some (WantKey, FDict (dict_set k v kvs) # st')
      | (TRBrace, FDictKey kvs k # st') \<Rightarrow> Some (Have (PyDict (dict_set k v kvs)), st')
      | _ \<Rightarrow> None)"

fun parse :: "mode \<times> frame list \<Rightarrow> token list \<Rightarrow> pyval option" where
  "parse (Have v, []) [] = Some v"
| "parse _ [] = None"
| "parse ps (t # ts) = (case feed ps t of None \<Rightarrow> None | Some ps' \<Rightarrow> parse ps' ts)"

definition json_loads :: "pystr \<Rightarrow> exn + pyval" where
  "json_loads s =
     (case tokenize s of
        None \<Rightarrow> Inl JSONDecodeError
      | Some ts \<Rightarrow>
          (case parse (WantValue, []) ts of
             None \<Rightarrow> Inl JSONDecodeError
           | Some v \<Rightarrow> Inr v))"

section \<open>The data model\<close>

text \<open>
  \<open>class ResearchPlan(BaseModel)\<close> with \<open>topic: str\<close>, \<open>search_queries: list[str]\<close> and
  \<open>focus_areas: list[str]\<close>.
\<close>

record research_plan =
  topic :: pystr
  search_queries :: "pystr list"
  focus_areas :: "pystr list"

definition as_str :: "pyval \<Rightarrow> pystr option" where
  "as_str v = (case v of PyStr t \<Rightarrow> Some t | _ \<Rightarrow> None)"

fun all_strs :: "pyval list \<Rightarrow> pystr list option" where
  "all_strs [] = Some []"
| "all_strs (x # xs) =
     (case as_str x of
        None \<Rightarrow> None
      | Some t \<Rightarrow> map_option ((#) t) (all_strs xs))"

definition as_str_list :: "pyval \<Rightarrow> pystr list option" where
  "as_str_list v = (case v of PyList xs \<Rightarrow> all_strs xs | _ \<Rightarrow> None)"

text \<open>
  \<open>ResearchPlan(**plan_dict)\<close>. Unpacking anything but a mapping raises \<open>TypeError\<close>
  before the model is built. The model then requires its three fields, ignores other
  keys, takes a \<open>str\<close> for \<open>topic\<close> and a list of \<open>str\<close> for the two other fields, and
  raises \<open>ValidationError\<close> otherwise.
\<close>

definition ResearchPlan :: "pyval \<Rightarrow> exn + research_plan" where
  "ResearchPlan plan_dict =
     (case plan_dict of
        PyDict kvs \<Rightarrow>
          (case (map_of kvs (str ''topic''), map_of kvs (str ''search_queries''),
                 map_of kvs (str ''focus_areas'')) of
             (Some t, Some q, Some f) \<Rightarrow>
               (case (as_str t, as_str_list q, as_str_list f) of
                  (Some t', Some q', Some f') \<Rightarrow>
                    Inr \<lparr>topic = t', search_queries = q', focus_areas = f'\<rparr>
                | _ \<Rightarrow> Inl ValidationError)
           | _ \<Rightarrow> Inl ValidationError)
      | _ \<Rightarrow> Inl TypeError)"

text \<open>One entry of \<open>st.session_state.collected_facts\<close>.\<close>

record finding =
  fact :: pystr
  source :: pystr
  timestamp :: pystr

text \<open>
  The keys of \<open>st.session_state\<close> the scripts use. main.py has no \<open>critique_result\<close> and
  never touches it.
\<close>

record session =
  conversation_id :: pystr
  collected_facts :: "finding list"
  research_done :: bool
  report_result :: "pystr option"
  critique_result :: "pystr option"

section \<open>The outside world\<close>

text \<open>
  What one call of \<open>client.generate_content\<close> does: it raises an exception with the
  message \<open>e\<close> (this includes reading \<open>.text\<close> of a response that has none), or it
  returns a response whose text is a string or \<open>None\<close>.
\<close>

datatype outcome = Raises pystr | Returns "pystr option"

text \<open>
  What the page shows during a run. The fixed texts of the progress lines are left out:
  a progress line is known by the agent it announces.
\<close>

datatype ui_event =
    Progress pystr
  | ShowPlan research_plan
  | ShowFindings "finding list"
  | ShowPreview pystr
  | ShowError pystr

text \<open>
  The functions the scripts call and do not define: the model service (given the number
  of earlier calls, the model name and the prompt), \<open>json.loads\<close>, \<open>eval\<close>, the \<open>repr\<close> of
  a list of strings inside an f-string, and the clock read as \<open>%H:%M:%S\<close> (given the
  number of service calls made so far).
\<close>

record env =
  generate_content :: "nat \<Rightarrow> pystr \<Rightarrow> pystr \<Rightarrow> outcome"
  loads :: "pystr \<Rightarrow> exn + pyval"
  py_eval :: "pystr \<Rightarrow> exn + pyval"
  repr_list :: "pystr list \<Rightarrow> pystr"
  now :: "nat \<Rightarrow> pystr"

text \<open>The effects of a run: the calls of the service (model name and prompt), the
  arguments of \<open>time.sleep\<close> in seconds, and the page.\<close>

record world =
  calls :: "(pystr \<times> pystr) list"
  sleeps :: "nat list"
  ui :: "ui_event list"

section \<open>The model client (app.py)\<close>

record agent =
  name :: pystr
  instructions :: pystr
  model_name :: pystr

definition no_response :: pystr where
  "no_response = str ''No response.''"

text \<open>The text of \<open>f"(warning sign) Error from {self.name}: {e}"\<close>; the sign is U+26A0 U+FE0F.\<close>

definition error_from :: "agent \<Rightarrow> pystr \<Rightarrow> pystr" where
  "error_from ag e = [9888, 65039] @ str '' Error from '' @ name ag @ str '': '' @ e"

definition full_prompt :: "agent \<Rightarrow> pystr \<Rightarrow> pystr" where
  "full_prompt ag prompt =
     instructions ag @ [10, 10] @ str ''User query / task:'' @ [10] @ prompt"

text \<open>
  The body of \<open>for attempt in range(3)\<close>, over the attempts still to make. A pass returns
  the text (or the sentinel when it is empty or \<open>None\<close>); on an exception it sleeps
  \<open>2 * (attempt + 1)\<close> seconds and continues when \<open>attempt < 2\<close>, and returns the
  diagnostic text otherwise. Leaving the loop returns Python's \<open>None\<close>.
\<close>

fun run_loop :: "env \<Rightarrow> agent \<Rightarrow> pystr \<Rightarrow> nat list \<Rightarrow> world \<Rightarrow> pystr option \<times> world" where
  "run_loop e ag fp [] w = (None, w)"
| "run_loop e ag fp (attempt # rest) w =
     (let w1 = w\<lparr>calls := calls w @ [(model_name ag, fp)]\<rparr> in
      case generate_content e (length (calls w)) (model_name ag) fp of
        Returns text \<Rightarrow>
          (Some (case text of
                   None \<Rightarrow> no_response
                 | Some t \<Rightarrow> if t = [] then no_response else t), w1)
      | Raises msg \<Rightarrow>
          if attempt < 2
          then run_loop e ag fp rest (w1\<lparr>sleeps := sleeps w1 @ [2 * (attempt + 1)]\<rparr>)
          else (Some (error_from ag msg), w1))"

definition run_attempts :: "env \<Rightarrow> agent \<Rightarrow> pystr \<Rightarrow> world \<Rightarrow> pystr option \<times> world" where
  "run_attempts e ag prompt w = run_loop e ag (full_prompt ag prompt) [0..<3] w"

text \<open>
  \<open>GeminiAgent.run\<close>. The loop never ends without returning (lemma
  \<open>run_attempts_returns\<close> below), so the second case does not occur.
\<close>

definition run :: "env \<Rightarrow> agent \<Rightarrow> pystr \<Rightarrow> world \<Rightarrow> pystr \<times> world" where
  "run e ag prompt w =
     (case run_attempts e ag prompt w of
        (Some t, w') \<Rightarrow> (t, w')
      | (None, w') \<Rightarrow> ([], w'))"

definition model_id :: pystr where
  "model_id = str ''gemini-2.5-flash''"

definition triage_agent :: agent where
  "triage_agent = \<lparr>
     name = str ''Triage Agent'',
     instructions =
       str ''You are the coordinator. Given a topic, produce a research plan as pure JSON only.''
       @ [10] @ str ''Keys: topic (string), search_queries (3-5 items), focus_areas (3-5 items).''
       @ [10] @ str ''Do not add commentary outside JSON.'',
     model_name = model_id\<rparr>"

definition research_agent :: agent where
  "research_agent = \<lparr>
     name = str ''Research Agent'',
     instructions =
       str ''You are a research assistant. Summarize findings in 2-3 short paragraphs, ''
       @ str ''under 300 words. Focus on crisp facts, key points, and useful takeaways. ''
       @ str ''No fluff. Include bulleted lists if helpful.'',
     model_name = model_id\<rparr>"

definition editor_agent :: agent where
  "editor_agent = \<lparr>
     name = str ''Editor Agent'',
     instructions =
       str ''You are a senior researcher. Using the notes, write a comprehensive markdown report ''
       @ str ''(>= 1000 words, target ~5-10 pages). Include:'' @ [10]
       @ str ''- A clear title'' @ [10] @ str ''- An outline of sections'' @ [10]
       @ str ''- Well-structured headings'' @ [10]
       @ str ''- Evidence-backed points'' @ [10]
       @ str ''- A '' @ [39] @ str ''Sources'' @ [39] @ str '' section at the end'',
     model_name = model_id\<rparr>"

definition critic_agent :: agent where
  "critic_agent = \<lparr>
     name = str ''Critic Agent'',
     instructions =
       str ''You are a critical reviewer. Review the provided report for clarity, structure, depth, ''
       @ str ''coverage, and factual balance. Suggest improvements and highlight missing points ''
       @ str ''in <= 400 words. Return feedback in markdown with bullet points.'',
     model_name = model_id\<rparr>"

section \<open>The workflow (app.py)\<close>

definition fallback_plan :: "pystr \<Rightarrow> pyval" where
  "fallback_plan tp =
     PyDict [(str ''topic'', PyStr tp),
             (str ''search_queries'', PyList [PyStr tp]),
             (str ''focus_areas'', PyList [PyStr (str ''General overview'')])]"

text \<open>
  Lines 224 to 230: the plan from the text of the triage agent. Only \<open>ValidationError\<close>
  is caught; any other exception of \<open>ResearchPlan(**plan_dict)\<close> leaves \<open>run_research\<close>.
\<close>

definition make_plan :: "(pystr \<Rightarrow> exn + pyval) \<Rightarrow> pystr \<Rightarrow> pystr \<Rightarrow> exn + research_plan" where
  "make_plan lds tp triage_raw =
     (let plan_dict = safe_json_parse lds triage_raw (fallback_plan tp) in
      case ResearchPlan plan_dict of
        Inr plan \<Rightarrow> Inr plan
      | Inl ValidationError \<Rightarrow> ResearchPlan (fallback_plan tp)
      | Inl ex \<Rightarrow> Inl ex)"

definition notes_prompt :: "env \<Rightarrow> research_plan \<Rightarrow> pystr" where
  "notes_prompt e plan =
     str ''Topic: '' @ topic plan @ [10]
     @ str ''Search Queries: '' @ repr_list e (search_queries plan) @ [10]
     @ str ''Focus Areas: '' @ repr_list e (focus_areas plan) @ [10]
     @ str ''Provide concise findings.''"

definition editor_prompt :: "research_plan \<Rightarrow> pystr \<Rightarrow> pystr" where
  "editor_prompt plan research_notes =
     str ''Topic: '' @ topic plan @ [10, 10] @ str ''Research Notes:'' @ [10]
     @ research_notes @ [10, 10] @ str ''Write the full report now.''"

definition display :: "ui_event \<Rightarrow> world \<Rightarrow> world" where
  "display ev w = w\<lparr>ui := ui w @ [ev]\<rparr>"

text \<open>Steps 2 to 4 of \<open>run_research\<close>, once the plan is there.\<close>

definition research_and_report :: "env \<Rightarrow> research_plan \<Rightarrow> session \<Rightarrow> world \<Rightarrow> session \<times> world" where
  "research_and_report e plan s w =
     (let w1 = display (Progress (name research_agent)) (display (ShowPlan plan) w);
          (research_notes, w2) = run e research_agent (notes_prompt e plan) w1;
          s1 = s\<lparr>collected_facts := collected_facts s @
                   [\<lparr>fact = research_notes,
                     source = str ''Gemini (summarized findings)'',
                     timestamp = now e (length (calls w2))\<rparr>]\<rparr>;
          w3 = display (Progress (name editor_agent)) (display (ShowFindings (collected_facts s1)) w2);
          (report_text, w4) = run e editor_agent (editor_prompt plan research_notes) w3;
          s2 = s1\<lparr>report_result := Some report_text\<rparr>;
          w5 = display (Progress (name critic_agent)) w4;
          (critique_text, w6) = run e critic_agent report_text w5;
          s3 = s2\<lparr>critique_result := Some critique_text\<rparr>;
          s4 = s3\<lparr>research_done := True\<rparr>
      in (s4, display (ShowPreview (take 600 report_text)) w6))"

definition triage_prompt :: "pystr \<Rightarrow> pystr" where
  "triage_prompt tp = str ''Topic: '' @ tp @ [10] @ str ''Return JSON only.''"

text \<open>
  \<open>run_research(topic)\<close>: the exception that leaves it, if any, the session and the
  world afterwards.
\<close>

definition run_research :: "env \<Rightarrow> pystr \<Rightarrow> session \<Rightarrow> world \<Rightarrow> exn option \<times> session \<times> world" where
  "run_research e tp s w =
     (let s1 = s\<lparr>collected_facts := [], research_done := False,
                 report_result := None, critique_result := None\<rparr>;
          w1 = display (Progress (name triage_agent)) w;
          (triage_raw, w2) = run e triage_agent (triage_prompt tp) w1
      in case make_plan (loads e) tp triage_raw of
           Inl ex \<Rightarrow> (Some ex, s1, w2)
         | Inr plan \<Rightarrow>
             (let (s2, w3) = research_and_report e plan s1 w2 in (None, s2, w3)))"

text \<open>The trigger: \<open>if start_button and user_topic: run_research(user_topic)\<close>, with no
  handler around the call.\<close>

definition trigger :: "env \<Rightarrow> bool \<Rightarrow> pystr \<Rightarrow> session \<Rightarrow> world \<Rightarrow> exn option \<times> session \<times> world" where
  "trigger e start_button user_topic s w =
     (if start_button \<and> user_topic \<noteq> [] then run_research e user_topic s w
      else (None, s, w))"

section \<open>The report tab (app.py)\<close>

text \<open>
  \<open>str.title()\<close> follows the character database of Unicode, which the scripts do not
  hold. The database is a parameter: whether a code point is cased, its full title-case
  mapping (one to three code points), and the lower-case mapping of the character at an
  index of a text (it looks at the text around the index for a capital sigma).
\<close>

record ucd =
  is_cased :: "nat \<Rightarrow> bool"
  to_title_full :: "nat \<Rightarrow> pystr"
  lower_ucs4 :: "pystr \<Rightarrow> nat \<Rightarrow> pystr"

text \<open>
  The loop of \<open>str.title()\<close> over the characters of the text \<open>whole\<close>, at index \<open>i\<close>: a
  character is mapped to lower case when the one before it is cased, and to title case
  otherwise (also at the start).
\<close>

fun do_title :: "ucd \<Rightarrow> pystr \<Rightarrow> bool \<Rightarrow> nat \<Rightarrow> pystr \<Rightarrow> pystr" where
  "do_title u whole previous_is_cased i [] = []"
| "do_title u whole previous_is_cased i (c # cs) =
     (if previous_is_cased then lower_ucs4 u whole i else to_title_full u c)
     @ do_title u whole (is_cased u c) (Suc i) cs"

definition title :: "ucd \<Rightarrow> pystr \<Rightarrow> pystr" where
  "title u t = do_title u t False 0 t"

text \<open>\<open>str.replace(old, new)\<close> for one-character \<open>old\<close> and \<open>new\<close>.\<close>

definition replace :: "nat \<Rightarrow> nat \<Rightarrow> pystr \<Rightarrow> pystr" where
  "replace old new t = map (\<lambda>c. if c = old then new else c) t"

definition title_text :: "ucd \<Rightarrow> pystr \<Rightarrow> pystr" where
  "title_text u user_topic = title u (if user_topic = [] then str ''Report'' else user_topic)"

definition report_file_name :: "ucd \<Rightarrow> pystr \<Rightarrow> pystr" where
  "report_file_name u user_topic = replace 32 95 (title_text u user_topic) @ str ''.md''"

definition critique_file_name :: "ucd \<Rightarrow> pystr \<Rightarrow> pystr" where
  "critique_file_name u user_topic =
     replace 32 95 (title_text u user_topic) @ str ''_Critique.md''"

definition truthy :: "pystr option \<Rightarrow> bool" where
  "truthy v = (case v of None \<Rightarrow> False | Some t \<Rightarrow> t \<noteq> [])"

text \<open>The download buttons of the report tab: file name and content of each.\<close>

definition tab_report :: "ucd \<Rightarrow> pystr \<Rightarrow> session \<Rightarrow> (pystr \<times> pystr) list" where
  "tab_report u user_topic s =
     (if research_done s \<and> truthy (report_result s) then
        (case report_result s of
           None \<Rightarrow> []
         | Some report \<Rightarrow>
             (report_file_name u user_topic, report) #
             (case critique_result s of
                None \<Rightarrow> []
              | Some critique \<Rightarrow>
                  if critique \<noteq> [] then [(critique_file_name u user_topic, critique)] else []))
      else [])"

section \<open>The older script (main.py)\<close>

text \<open>
  The message \<open>str(e)\<close> of an exception. The service and \<open>eval\<close> supply the messages of
  their exceptions; for the other classes the class name stands for the message.
\<close>

fun exn_str :: "exn \<Rightarrow> pystr" where
  "exn_str (ServiceError msg) = msg"
| "exn_str (EvalError msg) = msg"
| "exn_str JSONDecodeError = str ''JSONDecodeError''"
| "exn_str TypeError = str ''TypeError''"
| "exn_str ValidationError = str ''ValidationError''"

definition main_full_prompt :: "agent \<Rightarrow> pystr \<Rightarrow> pystr" where
  "main_full_prompt ag prompt = instructions ag @ [10, 10] @ str ''User query:'' @ [10] @ prompt"

text \<open>\<open>GeminiAgent.run\<close> of main.py: one call, no handler.\<close>

definition main_run :: "env \<Rightarrow> agent \<Rightarrow> pystr \<Rightarrow> world \<Rightarrow> (exn + pystr) \<times> world" where
  "main_run e ag prompt w =
     (let fp = main_full_prompt ag prompt;
          w1 = w\<lparr>calls := calls w @ [(model_name ag, fp)]\<rparr>
      in case generate_content e (length (calls w)) (model_name ag) fp of
           Raises msg \<Rightarrow> (Inl (ServiceError msg), w1)
         | Returns text \<Rightarrow>
             (Inr (case text of
                     None \<Rightarrow> no_response
                   | Some t \<Rightarrow> if t = [] then no_response else t), w1))"

definition main_research_agent :: agent where
  "main_research_agent = \<lparr>
     name = str ''Research Agent'',
     instructions =
       str ''You are a research assistant. Search the web mentally and summarize findings in ''
       @ str ''2-3 paragraphs under 300 words. Focus only on core facts, skip fluff.'',
     model_name = model_id\<rparr>"

definition main_editor_agent :: agent where
  "main_editor_agent = \<lparr>
     name = str ''Editor Agent'',
     instructions =
       str ''You are a senior researcher. Write a comprehensive research report (1000+ words, ''
       @ str ''markdown format, 5-10 pages). Include an outline, detailed content, and sources.'',
     model_name = model_id\<rparr>"

definition main_triage_agent :: agent where
  "main_triage_agent = \<lparr>
     name = str ''Triage Agent'',
     instructions =
       str ''You are the coordinator. Given a topic:'' @ [10]
       @ str ''1. Create a research plan with:'' @ [10]
       @ str ''   - topic: clear statement'' @ [10]
       @ str ''   - search_queries: 3-5 search queries'' @ [10]
       @ str ''   - focus_areas: 3-5 key aspects'' @ [10]
       @ str ''Return structured JSON with {topic, search_queries, focus_areas}.'' @ [10],
     model_name = model_id\<rparr>"

definition save_important_fact :: "env \<Rightarrow> pystr \<Rightarrow> pystr \<Rightarrow> session \<Rightarrow> world \<Rightarrow> session" where
  "save_important_fact e fct src s w =
     s\<lparr>collected_facts := collected_facts s @
         [\<lparr>fact = fct,
           source = (if src = [] then str ''Not specified'' else src),
           timestamp = now e (length (calls w))\<rparr>]\<rparr>"

definition strip :: "pystr \<Rightarrow> pystr" where
  "strip t = rev (dropWhile is_space (rev (dropWhile is_space t)))"

definition default_plan :: "pystr \<Rightarrow> research_plan" where
  "default_plan tp =
     \<lparr>topic = tp, search_queries = [tp], focus_areas = [str ''General overview'']\<rparr>"

text \<open>
  Lines 147 to 159: the text of the triage agent is passed to \<open>eval\<close> when it starts
  with an opening brace; every exception of \<open>eval\<close> or of the model gives the default
  plan.
\<close>

definition main_make_plan :: "env \<Rightarrow> pystr \<Rightarrow> pystr \<Rightarrow> research_plan" where
  "main_make_plan e tp triage_output =
     (case (if starts_with [LBRACE] (strip triage_output)
            then py_eval e triage_output
            else Inr (fallback_plan tp)) of
        Inl ex \<Rightarrow> default_plan tp
      | Inr plan_data \<Rightarrow>
          (case ResearchPlan plan_data of
             Inl ex \<Rightarrow> default_plan tp
           | Inr plan \<Rightarrow> plan))"

definition main_notes_prompt :: "env \<Rightarrow> research_plan \<Rightarrow> pystr" where
  "main_notes_prompt e plan =
     str ''Topic: '' @ topic plan @ [10]
     @ str ''Queries: '' @ repr_list e (search_queries plan) @ [10]
     @ str ''Focus Areas: '' @ repr_list e (focus_areas plan)"

definition main_editor_prompt :: "pystr \<Rightarrow> pystr \<Rightarrow> pystr" where
  "main_editor_prompt tp research_notes =
     str ''Topic: '' @ tp @ [10] @ str ''Research Notes:'' @ [10] @ research_notes"

definition main_run_research :: "env \<Rightarrow> pystr \<Rightarrow> session \<Rightarrow> world \<Rightarrow> exn option \<times> session \<times> world" where
  "main_run_research e tp s w =
     (let s1 = s\<lparr>collected_facts := [], research_done := False, report_result := None\<rparr>;
          w1 = display (Progress (name main_triage_agent)) w
      in case main_run e main_triage_agent (str ''Research this topic thoroughly: '' @ tp) w1 of
           (Inl ex, w2) \<Rightarrow> (Some ex, s1, w2)
         | (Inr triage_output, w2) \<Rightarrow>
             (let plan = main_make_plan e tp triage_output;
                  w3 = display (Progress (name main_research_agent)) (display (ShowPlan plan) w2)
              in case main_run e main_research_agent (main_notes_prompt e plan) w3 of
                   (Inl ex, w4) \<Rightarrow> (Some ex, s1, w4)
                 | (Inr research_notes, w4) \<Rightarrow>
                     (let s2 = save_important_fact e research_notes (str ''Gemini Research'') s1 w4;
                          w5 = display (Progress (name main_editor_agent))
                                 (display (ShowFindings (collected_facts s2)) w4)
                      in case main_run e main_editor_agent
                                (main_editor_prompt tp research_notes) w5 of
                           (Inl ex, w6) \<Rightarrow> (Some ex, s2, w6)
                         | (Inr report_text, w6) \<Rightarrow>
                             (None,
                              s2\<lparr>report_result := Some report_text, research_done := True\<rparr>,
                              display (ShowPreview (take 500 report_text)) w6))))"

text \<open>The trigger of main.py: \<open>if start_button:\<close> with the call inside \<open>try\<close> and
  \<open>except Exception as e\<close>.\<close>

definition main_trigger :: "env \<Rightarrow> bool \<Rightarrow> pystr \<Rightarrow> session \<Rightarrow> world \<Rightarrow> session \<times> world" where
  "main_trigger e start_button user_topic s w =
     (if start_button then
        (case main_run_research e user_topic s w of
           (None, s', w') \<Rightarrow> (s', w')
         | (Some ex, s', w') \<Rightarrow>
             (s'\<lparr>report_result :=
                    Some (str ''# Research on '' @ user_topic @ [10, 10]
                          @ str ''Error: '' @ exn_str ex),
                  research_done := True\<rparr>,
              display (ShowError (str ''Error: '' @ exn_str ex)) w'))
      else (s, w))"

definition main_report_file_name :: "pystr \<Rightarrow> pystr" where
  "main_report_file_name user_topic = replace 32 95 user_topic @ str ''.md''"

definition main_tab_report :: "pystr \<Rightarrow> session \<Rightarrow> (pystr \<times> pystr) list" where
  "main_tab_report user_topic s =
     (if research_done s \<and> truthy (report_result s) then
        (case report_result s of
           None \<Rightarrow> []
         | Some report \<Rightarrow> [(main_report_file_name user_topic, report)])
      else [])"

section \<open>Notions used in the properties\<close>

text \<open>Some closing brace of the text is followed, inside the text, by optional white
  space and a triple backtick.\<close>

fun early_close :: "pystr \<Rightarrow> bool" where
  "early_close [] = False"
| "early_close (c # cs) = (c = RBRACE \<and> closes_fence cs \<or> early_close cs)"

text \<open>The fenced pattern matches at no position of \<open>pre\<close> in the text \<open>pre @ rest\<close>.\<close>

fun no_fence_within :: "pystr \<Rightarrow> pystr \<Rightarrow> bool" where
  "no_fence_within [] rest = True"
| "no_fence_within (c # cs) rest = (fence_at (c # cs @ rest) = None \<and> no_fence_within cs rest)"

text \<open>The invariant the specification states for a plan.\<close>

definition plan_inv :: "research_plan \<Rightarrow> bool" where
  "plan_inv plan \<longleftrightarrow> topic plan \<noteq> [] \<and> search_queries plan \<noteq> [] \<and> focus_areas plan \<noteq> []"

text \<open>The ASCII letters and their two cases.\<close>

definition is_upper :: "nat \<Rightarrow> bool" where
  "is_upper c \<longleftrightarrow> 65 \<le> c \<and> c \<le> 90"

definition is_lower :: "nat \<Rightarrow> bool" where
  "is_lower c \<longleftrightarrow> 97 \<le> c \<and> c \<le> 122"

definition is_letter :: "nat \<Rightarrow> bool" where
  "is_letter c \<longleftrightarrow> is_upper c \<or> is_lower c"

definition to_upper :: "nat \<Rightarrow> nat" where
  "to_upper c = (if is_lower c then c - 32 else c)"

definition to_lower :: "nat \<Rightarrow> nat" where
  "to_lower c = (if is_upper c then c + 32 else c)"

text \<open>
  What the character database says of the ASCII code points: the cased ones are the
  letters, the title case of a letter is its upper case, and every other mapping leaves
  the character as it is. Nothing is said of the other code points.
\<close>

definition ascii_entries :: "ucd \<Rightarrow> bool" where
  "ascii_entries u \<longleftrightarrow>
     (\<forall>c<128. is_cased u c = is_letter c \<and> to_title_full u c = [to_upper c]) \<and>
     (\<forall>t i. i < length t \<and> t ! i < 128 \<longrightarrow> lower_ucs4 u t i = [to_lower (t ! i)])"

text \<open>A database with these entries, which treats every other code point as uncased.
  It serves to run the report tab on ASCII topics.\<close>

definition ascii_ucd :: ucd where
  "ascii_ucd = \<lparr>
     is_cased = is_letter,
     to_title_full = (\<lambda>c. [to_upper c]),
     lower_ucs4 = (\<lambda>t i. if i < length t then [to_lower (t ! i)] else [])\<rparr>"

text \<open>
  The base name of the export as the specification words it, for a topic of ASCII
  characters: the topic in title case (a letter after a letter in lower case, any other
  letter in upper case), its spaces replaced by underscores.
\<close>

definition spec_title_char :: "pystr \<Rightarrow> nat \<Rightarrow> nat" where
  "spec_title_char t i =
     (if 0 < i \<and> is_letter (t ! (i - 1)) then to_lower (t ! i) else to_upper (t ! i))"

definition spec_base_name :: "pystr \<Rightarrow> pystr" where
  "spec_base_name t =
     map (\<lambda>i. if spec_title_char t i = 32 then 95 else spec_title_char t i) [0..<length t]"

text \<open>
  An environment to run the scripts in: the service behaves as \<open>service\<close> says, the
  decoder is \<open>json_loads\<close>, \<open>eval\<close> behaves as \<open>ev\<close> says, a list of strings is printed
  with single quotes (right for strings without quotes, backslashes and unprintable
  characters), and the clock stands still.
\<close>

fun join_quoted :: "pystr list \<Rightarrow> pystr" where
  "join_quoted [] = []"
| "join_quoted [x] = [39] @ x @ [39]"
| "join_quoted (x # y # ys) = [39] @ x @ [39] @ str '', '' @ join_quoted (y # ys)"

definition script_env :: "(nat \<Rightarrow> pystr \<Rightarrow> pystr \<Rightarrow> outcome) \<Rightarrow> (pystr \<Rightarrow> exn + pyval) \<Rightarrow> env" where
  "script_env service ev = \<lparr>
     generate_content = service,
     loads = json_loads,
     py_eval = ev,
     repr_list = (\<lambda>xs. [91] @ join_quoted xs @ [93]),
     now = (\<lambda>n. str ''12:00:00'')\<rparr>"

definition empty_session :: session where
  "empty_session = \<lparr>
     conversation_id = str ''0123456789abcdef'',
     collected_facts = [],
     research_done = False,
     report_result = None,
     critique_result = None\<rparr>"

definition empty_world :: world where
  "empty_world = \<lparr>calls = [], sleeps = [], ui = []\<rparr>"

section \<open>The model client always returns a text\<close>

lemma upt3: "[0..<3] = [0, 1, 2]"
  by (simp add: upt_rec)

lemma run_loop_Some:
  "attempts \<noteq> [] \<Longrightarrow> last attempts \<ge> 2 \<Longrightarrow>
   \<exists>t. fst (run_loop e ag fp attempts w) = Some t \<and> t \<noteq> []"
proof (induction attempts arbitrary: w)
  case Nil
  then show ?case by simp
next
  case (Cons a rest)
  show ?case
  proof (cases "generate_content e (length (calls w)) (model_name ag) fp")
    case (Returns resp)
    then show ?thesis
      by (auto simp: Let_def no_response_def split: option.splits)
  next
    case (Raises msg)
    show ?thesis
    proof (cases "a < 2")
      case True
      with Cons.prems have "rest \<noteq> []" by auto
      with Cons.prems have "last rest \<ge> 2" by simp
      from Cons.IH [OF \<open>rest \<noteq> []\<close> this] Raises True show ?thesis
        by (simp add: Let_def)
    next
      case False
      with Raises show ?thesis by (simp add: Let_def error_from_def)
    qed
  qed
qed

lemma run_attempts_returns: "\<exists>t. fst (run_attempts e ag prompt w) = Some t \<and> t \<noteq> []"
  unfolding run_attempts_def by (rule run_loop_Some) (simp_all add: upt3)

lemma run_nonempty: "fst (run e ag prompt w) \<noteq> []"
  using run_attempts_returns [of e ag prompt w]
  by (auto simp: run_def split: prod.splits option.splits)

section \<open>The extractor\<close>

text \<open>
  Claim C3. \<open>safe_json_parse\<close> is a total function: it has a value for every text and
  every fallback, and no exception among its results. Whenever the decoder raises on
  the candidate payload, whatever the exception, the value is the fallback itself.
\<close>

theorem safe_json_parse_fallback:
  "lds (payload plan_text) = Inl ex \<Longrightarrow> safe_json_parse lds plan_text fallback = fallback"
  by (simp add: safe_json_parse_def)

theorem safe_json_parse_fallback_witness:
  \<open>json_loads (payload (str ''{"topic": "x",}'')) = Inl JSONDecodeError \<and>
   safe_json_parse json_loads (str ''{"topic": "x",}'') (fallback_plan (str ''x''))
     = fallback_plan (str ''x'')\<close>
proof -
  have h: \<open>json_loads (payload (str ''{"topic": "x",}'')) = Inl JSONDecodeError\<close>
    by code_simp
  from h safe_json_parse_fallback [of json_loads _ JSONDecodeError \<open>fallback_plan (str ''x'')\<close>, OF h]
  show ?thesis by simp
qed

text \<open>
  Claim C10. When the text holds no brace-delimited span, the extractor finds nothing
  and the whole text is decoded; whatever the decoder returns for it is the result, a
  mapping or not. The text \<open>[1]\<close> is decoded to a list, which \<open>safe_json_parse\<close> returns in
  place of the fallback.
\<close>

theorem safe_json_parse_non_mapping:
  "extract_json plan_text = None \<Longrightarrow> lds plan_text = Inr v \<Longrightarrow>
   safe_json_parse lds plan_text fallback = v"
  by (simp add: safe_json_parse_def payload_def)

theorem safe_json_parse_non_mapping_witness:
  \<open>extract_json (str ''[1]'') = None \<and>
   json_loads (str ''[1]'') = Inr (PyList [PyInt 1]) \<and>
   safe_json_parse json_loads (str ''[1]'') (fallback_plan (str ''x'')) = PyList [PyInt 1] \<and>
   PyList [PyInt 1] \<noteq> fallback_plan (str ''x'')\<close>
proof -
  have a: \<open>extract_json (str ''[1]'') = None\<close> by code_simp
  have b: \<open>json_loads (str ''[1]'') = Inr (PyList [PyInt 1])\<close> by code_simp
  from safe_json_parse_non_mapping [of \<open>str ''[1]''\<close> json_loads \<open>PyList [PyInt 1]\<close>
      \<open>fallback_plan (str ''x'')\<close>, OF a b] a b
  show ?thesis by (simp add: fallback_plan_def)
qed

text \<open>What the extractor returns starts with an opening and ends with a closing brace.\<close>

lemma lazy_body_last: "lazy_body s = Some g \<Longrightarrow> g \<noteq> [] \<and> last g = RBRACE"
  by (induction s arbitrary: g) (auto split: if_splits)

lemma fence_at_braces: "fence_at s = Some g \<Longrightarrow> hd g = LBRACE \<and> last g = RBRACE"
  by (auto simp: fence_at_def fence_body_def Let_def split: if_splits list.splits option.splits
           dest: lazy_body_last)

lemma search_fence_braces: "search_fence s = Some g \<Longrightarrow> hd g = LBRACE \<and> last g = RBRACE"
  by (induction s) (auto split: option.splits dest: fence_at_braces)

lemma greedy_body_last: "greedy_body s = Some g \<Longrightarrow> g \<noteq> [] \<and> last g = RBRACE"
  by (induction s arbitrary: g) (auto split: if_splits option.splits)

lemma search_brace_braces: "search_brace s = Some g \<Longrightarrow> hd g = LBRACE \<and> last g = RBRACE"
  by (induction s) (auto split: option.splits if_splits dest: greedy_body_last)

lemma extract_json_braces: "extract_json t = Some g \<Longrightarrow> hd g = LBRACE \<and> last g = RBRACE"
  by (auto simp: extract_json_def split: if_splits option.splits
           dest: search_fence_braces search_brace_braces)

section \<open>The workflow of app.py\<close>

lemma run_loop_ui: "ui (snd (run_loop e ag fp attempts w)) = ui w"
  by (induction attempts arbitrary: w) (auto simp: Let_def split: outcome.splits)

lemma run_ui: "run e ag prompt w = (t, w') \<Longrightarrow> ui w' = ui w"
  using run_loop_ui [of e ag "full_prompt ag prompt" "[0..<3]" w]
  by (auto simp: run_def run_attempts_def split: prod.splits option.splits)

lemma run_result_nonempty: "run e ag prompt w = (t, w') \<Longrightarrow> t \<noteq> []"
  using run_nonempty [of e ag prompt w] by simp

lemma ResearchPlan_fallback: "ResearchPlan (fallback_plan tp) = Inr (default_plan tp)"
  by (simp add: ResearchPlan_def fallback_plan_def default_plan_def as_str_def as_str_list_def)

lemma research_and_report_done:
  assumes "research_and_report e plan s w = (s', w')"
  shows "research_done s' \<and> (\<exists>r. report_result s' = Some r \<and> r \<noteq> []) \<and>
         (\<exists>c. critique_result s' = Some c \<and> c \<noteq> []) \<and>
         (\<exists>f. collected_facts s' = collected_facts s @ [f]) \<and>
         conversation_id s' = conversation_id s \<and> ShowPlan plan \<in> set (ui w')"
proof -
  define w1 where "w1 = display (Progress (name research_agent)) (display (ShowPlan plan) w)"
  obtain rnotes w2 where r1: "run e research_agent (notes_prompt e plan) w1 = (rnotes, w2)"
    by (cases "run e research_agent (notes_prompt e plan) w1")
  define s1 where "s1 = s\<lparr>collected_facts := collected_facts s @
      [\<lparr>fact = rnotes, source = str ''Gemini (summarized findings)'',
        timestamp = now e (length (calls w2))\<rparr>]\<rparr>"
  define w3 where
    "w3 = display (Progress (name editor_agent)) (display (ShowFindings (collected_facts s1)) w2)"
  obtain report w4 where r2: "run e editor_agent (editor_prompt plan rnotes) w3 = (report, w4)"
    by (cases "run e editor_agent (editor_prompt plan rnotes) w3")
  obtain critique w6 where
    r3: "run e critic_agent report (display (Progress (name critic_agent)) w4) = (critique, w6)"
    by (cases "run e critic_agent report (display (Progress (name critic_agent)) w4)")
  from assms r1 r2 r3
  have s': "s' = s1\<lparr>report_result := Some report, critique_result := Some critique,
                    research_done := True\<rparr>"
    and w': "w' = display (ShowPreview (take 600 report)) w6"
    by (simp_all add: research_and_report_def Let_def w1_def s1_def w3_def)
  have "ShowPlan plan \<in> set (ui w1)" by (simp add: w1_def display_def)
  then have "ShowPlan plan \<in> set (ui w2)" using run_ui [OF r1] by simp
  then have "ShowPlan plan \<in> set (ui w3)" by (simp add: w3_def display_def)
  then have "ShowPlan plan \<in> set (ui w4)" using run_ui [OF r2] by simp
  then have "ShowPlan plan \<in> set (ui w6)" using run_ui [OF r3] by (simp add: display_def)
  then have u: "ShowPlan plan \<in> set (ui w')" by (simp add: w' display_def)
  from run_result_nonempty [OF r2] run_result_nonempty [OF r3] u
  show ?thesis by (simp add: s' s1_def)
qed

lemma make_plan_fallback:
  "lds (payload triage_raw) = Inl ex \<Longrightarrow> make_plan lds tp triage_raw = Inr (default_plan tp)"
  by (simp add: make_plan_def safe_json_parse_def ResearchPlan_fallback)

lemma make_plan_type_error:
  assumes "extract_json triage_raw = None" and "lds triage_raw = Inr v"
      and "ResearchPlan v = Inl TypeError"
  shows "make_plan lds tp triage_raw = Inl TypeError"
  using assms by (simp add: make_plan_def safe_json_parse_def payload_def)

lemma run_loop_calls:
  "\<exists>k. k \<le> length attempts \<and> (attempts \<noteq> [] \<longrightarrow> 1 \<le> k) \<and>
       calls (snd (run_loop e ag fp attempts w)) = calls w @ replicate k (model_name ag, fp)"
proof (induction attempts arbitrary: w)
  case Nil
  then show ?case by simp
next
  case (Cons a rest)
  define w1 where "w1 = w\<lparr>calls := calls w @ [(model_name ag, fp)]\<rparr>"
  show ?case
  proof (cases "generate_content e (length (calls w)) (model_name ag) fp")
    case (Returns resp)
    then have "calls (snd (run_loop e ag fp (a # rest) w)) = calls w @ replicate 1 (model_name ag, fp)"
      by (simp add: Let_def)
    then show ?thesis by (intro exI [of _ 1]) simp
  next
    case (Raises msg)
    show ?thesis
    proof (cases "a < 2")
      case False
      with Raises
      have "calls (snd (run_loop e ag fp (a # rest) w)) = calls w @ replicate 1 (model_name ag, fp)"
        by (simp add: Let_def)
      then show ?thesis by (intro exI [of _ 1]) simp
    next
      case True
      from Cons.IH [of "w1\<lparr>sleeps := sleeps w1 @ [2 * (a + 1)]\<rparr>"]
      obtain k where k: "k \<le> length rest"
        and c: "calls (snd (run_loop e ag fp rest (w1\<lparr>sleeps := sleeps w1 @ [2 * (a + 1)]\<rparr>)))
                 = calls w1 @ replicate k (model_name ag, fp)"
        by auto
      from Raises True c
      have "calls (snd (run_loop e ag fp (a # rest) w))
              = calls w @ replicate (Suc k) (model_name ag, fp)"
        by (simp add: Let_def w1_def)
      with k show ?thesis by (intro exI [of _ "Suc k"]) simp
    qed
  qed
qed

lemma run_calls:
  assumes "run e ag prompt w = (t, w')"
  shows "\<exists>k. 1 \<le> k \<and> k \<le> 3 \<and>
             calls w' = calls w @ replicate k (model_name ag, full_prompt ag prompt)"
proof -
  from run_loop_calls [of "[0..<3]" e ag "full_prompt ag prompt" w]
  obtain k where "k \<le> 3" "1 \<le> k"
    and "calls (snd (run_attempts e ag prompt w))
           = calls w @ replicate k (model_name ag, full_prompt ag prompt)"
    by (auto simp: run_attempts_def)
  moreover have "w' = snd (run_attempts e ag prompt w)"
    using assms by (auto simp: run_def split: prod.splits option.splits)
  ultimately show ?thesis by auto
qed

text \<open>A service that answers every prompt with the text \<open>NaN\<close>.\<close>

definition nan_env :: env where
  "nan_env = script_env (\<lambda>n m p. Returns (Some (str ''NaN''))) (\<lambda>t. Inl (EvalError []))"

text \<open>
  Claim C1 fails as stated. The fallback is keyed on the decoder raising, and
  \<open>json.loads\<close> accepts texts that are no JSON: it decodes \<open>NaN\<close> to a float. For the
  triage text \<open>NaN\<close> the plan is not the fallback: \<open>ResearchPlan(**plan_dict)\<close> raises
  \<open>TypeError\<close> and the run ends there, not done and with no report. For an object with
  a member \<open>NaN\<close> the plan is the decoded object, not the fallback.
\<close>

theorem run_research_not_a_number:
  \<open>extract_json (str ''NaN'') = None \<and>
   json_loads (str ''NaN'') = Inr (PyFloat (str ''NaN'')) \<and>
   run_research nan_env (str ''Solar Power in Rural India'') empty_session empty_world =
     (Some TypeError, empty_session,
      \<lparr>calls = [(model_id, full_prompt triage_agent
                   (triage_prompt (str ''Solar Power in Rural India'')))],
       sleeps = [], ui = [Progress (name triage_agent)]\<rparr>) \<and>
   make_plan json_loads (str ''Solar Power in Rural India'')
     (str ''{"topic": "moon", "search_queries": ["tides"], "focus_areas": ["orbit"], "score": NaN}'')
     = Inr \<lparr>topic = str ''moon'', search_queries = [str ''tides''],
            focus_areas = [str ''orbit'']\<rparr>\<close>
proof -
  have r: \<open>run nan_env triage_agent (triage_prompt (str ''Solar Power in Rural India''))
             (display (Progress (name triage_agent)) empty_world)
           = (str ''NaN'',
              \<lparr>calls = [(model_id, full_prompt triage_agent
                           (triage_prompt (str ''Solar Power in Rural India'')))],
               sleeps = [], ui = [Progress (name triage_agent)]\<rparr>)\<close>
    by (simp add: run_def run_attempts_def upt3 Let_def nan_env_def script_env_def
        display_def empty_world_def triage_agent_def)
  have a: \<open>extract_json (str ''NaN'') = None\<close> by code_simp
  have b: \<open>json_loads (str ''NaN'') = Inr (PyFloat (str ''NaN''))\<close> by code_simp
  have b': \<open>loads nan_env (str ''NaN'') = Inr (PyFloat (str ''NaN''))\<close>
    unfolding nan_env_def script_env_def by code_simp
  have c: \<open>ResearchPlan (PyFloat (str ''NaN'')) = Inl TypeError\<close>
    by (simp add: ResearchPlan_def)
  have p: \<open>make_plan (loads nan_env) (str ''Solar Power in Rural India'') (str ''NaN'')
             = Inl TypeError\<close>
    using a b' c by (rule make_plan_type_error)
  have d: \<open>run_research nan_env (str ''Solar Power in Rural India'') empty_session empty_world =
     (Some TypeError, empty_session,
      \<lparr>calls = [(model_id, full_prompt triage_agent
                   (triage_prompt (str ''Solar Power in Rural India'')))],
       sleeps = [], ui = [Progress (name triage_agent)]\<rparr>)\<close>
    using r p by (simp add: run_research_def Let_def empty_session_def)
  have j: \<open>json_loads (payload
      (str ''{"topic": "moon", "search_queries": ["tides"], "focus_areas": ["orbit"], "score": NaN}''))
     = Inr (PyDict [(str ''topic'', PyStr (str ''moon'')),
                    (str ''search_queries'', PyList [PyStr (str ''tides'')]),
                    (str ''focus_areas'', PyList [PyStr (str ''orbit'')]),
                    (str ''score'', PyFloat (str ''NaN''))])\<close>
    by code_simp
  have v: \<open>ResearchPlan (PyDict [(str ''topic'', PyStr (str ''moon'')),
                    (str ''search_queries'', PyList [PyStr (str ''tides'')]),
                    (str ''focus_areas'', PyList [PyStr (str ''orbit'')]),
                    (str ''score'', PyFloat (str ''NaN''))])
      = Inr \<lparr>topic = str ''moon'', search_queries = [str ''tides''],
            focus_areas = [str ''orbit'']\<rparr>\<close>
    by (simp add: ResearchPlan_def as_str_def as_str_list_def)
  have m: \<open>make_plan json_loads (str ''Solar Power in Rural India'')
     (str ''{"topic": "moon", "search_queries": ["tides"], "focus_areas": ["orbit"], "score": NaN}'')
     = Inr \<lparr>topic = str ''moon'', search_queries = [str ''tides''],
            focus_areas = [str ''orbit'']\<rparr>\<close>
    by (simp only: make_plan_def safe_json_parse_def j sum.case Let_def v)
  from a b d m show ?thesis by (intro conjI)
qed


text \<open>
  Claim C1 as amended. When the decoder raises on the candidate payload of the triage
  text, the plan is the fallback plan: the topic, the topic as the only search query,
  and \<open>General overview\<close> as the only focus area. The run then calls the research agent
  on the prompt made from this plan, the editor agent on the notes and the critic agent
  on the report, each one to three times and in this order, raises nothing, and ends
  with \<open>research_done\<close> set, the notes as the only finding, and the texts of the editor
  and of the critic, both non-empty, stored as report and critique.
\<close>

theorem run_research_fallback:
  assumes "run e triage_agent (triage_prompt tp) (display (Progress (name triage_agent)) w)
             = (triage_raw, w2)"
      and "loads e (payload triage_raw) = Inl ex"
      and "run e research_agent (notes_prompt e (default_plan tp))
             (display (Progress (name research_agent)) (display (ShowPlan (default_plan tp)) w2))
             = (research_notes, w3)"
      and "found = \<lparr>fact = research_notes, source = str ''Gemini (summarized findings)'',
                     timestamp = now e (length (calls w3))\<rparr>"
      and "run e editor_agent (editor_prompt (default_plan tp) research_notes)
             (display (Progress (name editor_agent)) (display (ShowFindings [found]) w3))
             = (report_text, w4)"
      and "run e critic_agent report_text (display (Progress (name critic_agent)) w4)
             = (critique_text, w5)"
  shows "make_plan (loads e) tp triage_raw = Inr (default_plan tp) \<and>
         run_research e tp s w =
           (None,
            s\<lparr>collected_facts := [found], research_done := True,
              report_result := Some report_text, critique_result := Some critique_text\<rparr>,
            display (ShowPreview (take 600 report_text)) w5) \<and>
         report_text \<noteq> [] \<and> critique_text \<noteq> [] \<and>
         (\<exists>k1 k2 k3. 1 \<le> k1 \<and> k1 \<le> 3 \<and> 1 \<le> k2 \<and> k2 \<le> 3 \<and> 1 \<le> k3 \<and> k3 \<le> 3 \<and>
            calls w5 = calls w2
              @ replicate k1 (model_id, full_prompt research_agent (notes_prompt e (default_plan tp)))
              @ replicate k2 (model_id, full_prompt editor_agent
                                (editor_prompt (default_plan tp) research_notes))
              @ replicate k3 (model_id, full_prompt critic_agent report_text))"
proof -
  have p: "make_plan (loads e) tp triage_raw = Inr (default_plan tp)"
    using assms(2) by (rule make_plan_fallback)
  have rr: "research_and_report e (default_plan tp)
              (s\<lparr>collected_facts := [], research_done := False,
                 report_result := None, critique_result := None\<rparr>) w2
            = (s\<lparr>collected_facts := [found], research_done := True,
                 report_result := Some report_text, critique_result := Some critique_text\<rparr>,
               display (ShowPreview (take 600 report_text)) w5)"
    using assms(3,5,6) unfolding assms(4)
    by (simp add: research_and_report_def Let_def)
  have r: "run_research e tp s w =
           (None,
            s\<lparr>collected_facts := [found], research_done := True,
              report_result := Some report_text, critique_result := Some critique_text\<rparr>,
            display (ShowPreview (take 600 report_text)) w5)"
    using assms(1) p rr by (simp add: run_research_def Let_def)
  from run_calls [OF assms(3)] obtain k1 where k1: "1 \<le> k1" "k1 \<le> 3"
    "calls w3 = calls w2
       @ replicate k1 (model_id, full_prompt research_agent (notes_prompt e (default_plan tp)))"
    by (auto simp: display_def research_agent_def)
  from run_calls [OF assms(5)] obtain k2 where k2: "1 \<le> k2" "k2 \<le> 3"
    "calls w4 = calls w3
       @ replicate k2 (model_id, full_prompt editor_agent
                         (editor_prompt (default_plan tp) research_notes))"
    by (auto simp: display_def editor_agent_def)
  from run_calls [OF assms(6)] obtain k3 where k3: "1 \<le> k3" "k3 \<le> 3"
    "calls w5 = calls w4 @ replicate k3 (model_id, full_prompt critic_agent report_text)"
    by (auto simp: display_def critic_agent_def)
  have c: "\<exists>k1 k2 k3. 1 \<le> k1 \<and> k1 \<le> 3 \<and> 1 \<le> k2 \<and> k2 \<le> 3 \<and> 1 \<le> k3 \<and> k3 \<le> 3 \<and>
            calls w5 = calls w2
              @ replicate k1 (model_id, full_prompt research_agent (notes_prompt e (default_plan tp)))
              @ replicate k2 (model_id, full_prompt editor_agent
                                (editor_prompt (default_plan tp) research_notes))
              @ replicate k3 (model_id, full_prompt critic_agent report_text)"
    using k1 k2 k3 by (intro exI [of _ k1] exI [of _ k2] exI [of _ k3]) simp
  from p r c run_result_nonempty [OF assms(5)] run_result_nonempty [OF assms(6)]
  show ?thesis by blast
qed


text \<open>A service that answers every prompt with a sentence that is no JSON.\<close>

definition refusing_env :: env where
  "refusing_env = script_env (\<lambda>n m p. Returns (Some (str ''Sorry, I cannot help.''))) (\<lambda>t. Inl (EvalError []))"

lemma refusing_run_any:
  "run refusing_env ag prompt w =
     (str ''Sorry, I cannot help.'',
      w\<lparr>calls := calls w @ [(model_name ag, full_prompt ag prompt)]\<rparr>)"
  by (simp add: run_def run_attempts_def upt3 Let_def refusing_env_def script_env_def)

lemma refusing_loads: \<open>loads refusing_env (payload (str ''Sorry, I cannot help.'')) = Inl JSONDecodeError\<close>
  unfolding refusing_env_def script_env_def by code_simp


theorem run_research_fallback_witness:
  \<open>make_plan (loads refusing_env) (str ''Solar Power in Rural India'')
      (str ''Sorry, I cannot help.'')
     = Inr \<lparr>topic = str ''Solar Power in Rural India'',
            search_queries = [str ''Solar Power in Rural India''],
            focus_areas = [str ''General overview'']\<rparr> \<and>
   (\<exists>w'. run_research refusing_env (str ''Solar Power in Rural India'') empty_session empty_world
          = (None,
             empty_session\<lparr>collected_facts :=
                 [\<lparr>fact = str ''Sorry, I cannot help.'',
                   source = str ''Gemini (summarized findings)'',
                   timestamp = str ''12:00:00''\<rparr>],
               research_done := True,
               report_result := Some (str ''Sorry, I cannot help.''),
               critique_result := Some (str ''Sorry, I cannot help.'')\<rparr>,
             w') \<and>
        length (calls w') = 4)\<close>
proof -
  have n: \<open>now refusing_env k = str ''12:00:00''\<close> for k
    by (simp add: refusing_env_def script_env_def)
  from run_research_fallback [where e = refusing_env and s = empty_session and w = empty_world
      and tp = \<open>str ''Solar Power in Rural India''\<close>,
      OF refusing_run_any refusing_loads refusing_run_any refl refusing_run_any refusing_run_any]
  show ?thesis
    by (simp only: n default_plan_def) (simp add: display_def empty_world_def)
qed

section \<open>Retries of the model client\<close>

text \<open>A service that raises on every call.\<close>

definition failing_env :: env where
  "failing_env = script_env (\<lambda>n m p. Raises (str ''503 unavailable'')) (\<lambda>t. Inl (EvalError []))"

text \<open>
  Claim C4, for the model client of app.py. When the three calls that \<open>run\<close> makes raise,
  \<open>run\<close> makes exactly these three calls, sleeps 2 and then 4 seconds between them,
  raises nothing, and returns the diagnostic text that embeds the error of the third
  call.
\<close>

theorem run_retries:
  assumes "generate_content e (length (calls w)) (model_name ag) (full_prompt ag prompt) = Raises e0"
      and "generate_content e (length (calls w) + 1) (model_name ag) (full_prompt ag prompt) = Raises e1"
      and "generate_content e (length (calls w) + 2) (model_name ag) (full_prompt ag prompt) = Raises e2"
  shows "run e ag prompt w =
           (error_from ag e2,
            w\<lparr>calls := calls w @ replicate 3 (model_name ag, full_prompt ag prompt),
              sleeps := sleeps w @ [2, 4]\<rparr>)"
  using assms
  by (simp add: run_def run_attempts_def upt3 Let_def numeral_3_eq_3)

theorem run_retries_witness:
  \<open>run failing_env triage_agent (str ''x'') empty_world =
     (error_from triage_agent (str ''503 unavailable''),
      \<lparr>calls = replicate 3 (model_id, full_prompt triage_agent (str ''x'')),
       sleeps = [2, 4], ui = []\<rparr>)\<close>
proof -
  have h: "\<And>n. generate_content failing_env n (model_name triage_agent)
             (full_prompt triage_agent (str ''x'')) = Raises (str ''503 unavailable'')"
    by (simp add: failing_env_def script_env_def)
  from run_retries [of failing_env empty_world triage_agent \<open>str ''x''\<close>, OF h h h]
  show ?thesis by (simp add: empty_world_def triage_agent_def)
qed

text \<open>
  The model client of main.py calls the service once, does not sleep, and lets the
  exception leave \<open>run\<close>.
\<close>

theorem main_run_single_attempt:
  \<open>main_run failing_env main_triage_agent (str ''x'') empty_world =
     (Inl (ServiceError (str ''503 unavailable'')),
      \<lparr>calls = [(model_id, main_full_prompt main_triage_agent (str ''x''))],
       sleeps = [], ui = []\<rparr>)\<close>
  by (simp add: main_run_def Let_def failing_env_def script_env_def empty_world_def
      main_triage_agent_def)

section \<open>Successive runs\<close>

lemma run_research_reset:
  "run_research e tp s w =
   run_research e tp (s\<lparr>collected_facts := [], research_done := False,
                        report_result := None, critique_result := None\<rparr>) w"
  by (simp add: run_research_def)

lemma run_research_conversation_id:
  "run_research e tp s w = (x, s', w') \<Longrightarrow> conversation_id s' = conversation_id s"
  by (auto simp: run_research_def Let_def split: prod.splits sum.splits
           dest: research_and_report_done)

lemma run_research_facts:
  "run_research e tp s w = (x, s', w') \<Longrightarrow> length (collected_facts s') \<le> 1"
  by (auto simp: run_research_def Let_def split: prod.splits sum.splits
           dest: research_and_report_done)

text \<open>
  Claim C8. A second run started on the session the first run left behaves exactly as
  it does on a session whose findings, report, critique and done flag are cleared: the
  session after the second run holds nothing of what the first one stored, and at most
  the one finding the second run appended. This holds for every pair of topics.
\<close>

theorem second_run_overwrites:
  assumes "run_research e t1 s0 w0 = (x1, s1, w1)"
      and "run_research e t2 s1 w1 = (x2, s2, w2)"
  shows "run_research e t2
           (s0\<lparr>collected_facts := [], research_done := False,
               report_result := None, critique_result := None\<rparr>) w1 = (x2, s2, w2) \<and>
         length (collected_facts s2) \<le> 1"
proof -
  have "conversation_id s1 = conversation_id s0"
    using assms(1) by (rule run_research_conversation_id)
  then have "s1\<lparr>collected_facts := [], research_done := False,
               report_result := None, critique_result := None\<rparr> =
             s0\<lparr>collected_facts := [], research_done := False,
               report_result := None, critique_result := None\<rparr>"
    by (cases s0, cases s1) simp
  then show ?thesis
    using assms(2) run_research_reset [of e t2 s1 w1] run_research_reset [of e t2 s0 w1]
      run_research_facts [OF assms(2)]
    by simp
qed


theorem second_run_overwrites_witness:
  \<open>run_research refusing_env (str ''wind power'')
     (empty_session\<lparr>collected_facts := [], research_done := False,
                    report_result := None, critique_result := None\<rparr>)
     (snd (snd (run_research refusing_env (str ''solar power'') empty_session empty_world)))
   = run_research refusing_env (str ''wind power'')
       (fst (snd (run_research refusing_env (str ''solar power'') empty_session empty_world)))
       (snd (snd (run_research refusing_env (str ''solar power'') empty_session empty_world))) \<and>
   length (collected_facts (fst (snd
     (run_research refusing_env (str ''wind power'')
       (fst (snd (run_research refusing_env (str ''solar power'') empty_session empty_world)))
       (snd (snd (run_research refusing_env (str ''solar power'') empty_session empty_world))))))) \<le> 1\<close>
proof -
  define r1 where
    "r1 = run_research refusing_env (str ''solar power'') empty_session empty_world"
  define r2 where
    "r2 = run_research refusing_env (str ''wind power'') (fst (snd r1)) (snd (snd r1))"
  have a: "run_research refusing_env (str ''solar power'') empty_session empty_world
             = (fst r1, fst (snd r1), snd (snd r1))"
    by (simp add: r1_def)
  have b: "run_research refusing_env (str ''wind power'') (fst (snd r1)) (snd (snd r1))
             = (fst r2, fst (snd r2), snd (snd r2))"
    by (simp add: r2_def)
  from second_run_overwrites [OF a b] show ?thesis
    by (simp add: r1_def r2_def)
qed

section \<open>Exceptions that leave a run\<close>

text \<open>A service that answers every prompt with the JSON array \<open>[1]\<close>.\<close>

definition listing_env :: env where
  "listing_env = script_env (\<lambda>n m p. Returns (Some (str ''[1]''))) (\<lambda>t. Inl (EvalError []))"

text \<open>
  Claim C6, at the trigger of app.py. The triage text \<open>[1]\<close> holds no brace, is decoded
  to a list, and \<open>ResearchPlan(**plan_dict)\<close> raises \<open>TypeError\<close>, which the handler for
  \<open>ValidationError\<close> does not catch. The trigger has no handler: the exception leaves it,
  and the session stays with \<open>research_done\<close> false and no report.
\<close>

theorem trigger_uncaught_type_error:
  \<open>trigger listing_env True (str ''solar power'') empty_session empty_world =
     (Some TypeError, empty_session,
      \<lparr>calls = [(model_id, full_prompt triage_agent (triage_prompt (str ''solar power'')))],
       sleeps = [], ui = [Progress (name triage_agent)]\<rparr>)\<close>
proof -
  have r: \<open>run listing_env triage_agent (triage_prompt (str ''solar power''))
             (display (Progress (name triage_agent)) empty_world)
           = (str ''[1]'',
              \<lparr>calls = [(model_id, full_prompt triage_agent (triage_prompt (str ''solar power'')))],
               sleeps = [], ui = [Progress (name triage_agent)]\<rparr>)\<close>
    by (simp add: run_def run_attempts_def upt3 Let_def listing_env_def script_env_def
        display_def empty_world_def triage_agent_def)
  have a: \<open>extract_json (str ''[1]'') = None\<close> by code_simp
  have b: \<open>loads listing_env (str ''[1]'') = Inr (PyList [PyInt 1])\<close>
    unfolding listing_env_def script_env_def by code_simp
  have c: "ResearchPlan (PyList [PyInt 1]) = Inl TypeError"
    by (simp add: ResearchPlan_def)
  have p: \<open>make_plan (loads listing_env) (str ''solar power'') (str ''[1]'') = Inl TypeError\<close>
    using a b c by (rule make_plan_type_error)
  show ?thesis
    using r p by (simp add: trigger_def run_research_def Let_def empty_session_def)
qed

text \<open>
  The trigger of main.py does what the claim says: whatever happens in the run, the
  session ends marked done with a non-empty report, and when an exception left the
  run, the page shows the error and the report holds its text.
\<close>

lemma main_run_text: "main_run e ag prompt w = (Inr t, w') \<Longrightarrow> t \<noteq> []"
  by (auto simp: main_run_def Let_def no_response_def
           split: outcome.splits option.splits if_splits)

lemma main_run_research_done:
  assumes "main_run_research e tp s w = (None, s', w')"
  shows "research_done s' \<and> truthy (report_result s')"
proof -
  define w1 where "w1 = display (Progress (name main_triage_agent)) w"
  obtain r1 w2 where a:
    "main_run e main_triage_agent (str ''Research this topic thoroughly: '' @ tp) w1 = (r1, w2)"
    by (cases "main_run e main_triage_agent (str ''Research this topic thoroughly: '' @ tp) w1")
  from assms a obtain triage_output where r1: "r1 = Inr triage_output"
    by (cases r1) (simp_all add: main_run_research_def Let_def w1_def)
  define plan where "plan = main_make_plan e tp triage_output"
  define w3 where
    "w3 = display (Progress (name main_research_agent)) (display (ShowPlan plan) w2)"
  obtain r2 w4 where b: "main_run e main_research_agent (main_notes_prompt e plan) w3 = (r2, w4)"
    by (cases "main_run e main_research_agent (main_notes_prompt e plan) w3")
  from assms a r1 b obtain research_notes where r2: "r2 = Inr research_notes"
    by (cases r2) (simp_all add: main_run_research_def Let_def w1_def plan_def w3_def)
  define s2 where
    "s2 = save_important_fact e research_notes (str ''Gemini Research'')
            (s\<lparr>collected_facts := [], research_done := False, report_result := None\<rparr>) w4"
  define w5 where
    "w5 = display (Progress (name main_editor_agent))
            (display (ShowFindings (collected_facts s2)) w4)"
  obtain r3 w6 where c:
    "main_run e main_editor_agent (main_editor_prompt tp research_notes) w5 = (r3, w6)"
    by (cases "main_run e main_editor_agent (main_editor_prompt tp research_notes) w5")
  from assms a r1 b r2 c obtain report_text where r3: "r3 = Inr report_text"
    by (cases r3)
       (simp_all add: main_run_research_def Let_def w1_def plan_def w3_def s2_def w5_def)
  from assms a r1 b r2 c r3
  have "s' = s2\<lparr>report_result := Some report_text, research_done := True\<rparr>"
    by (simp add: main_run_research_def Let_def w1_def plan_def w3_def s2_def w5_def)
  moreover have "report_text \<noteq> []"
    using c r3 main_run_text by blast
  ultimately show ?thesis by (simp add: truthy_def)
qed

lemma main_trigger_marks_done:
  "research_done (fst (main_trigger e True user_topic s w)) \<and>
   truthy (report_result (fst (main_trigger e True user_topic s w)))"
proof -
  obtain x s' w' where r: "main_run_research e user_topic s w = (x, s', w')"
    by (cases "main_run_research e user_topic s w")
  show ?thesis
  proof (cases x)
    case None
    with r main_run_research_done [of e user_topic s w s' w'] show ?thesis
      by (simp add: main_trigger_def)
  next
    case (Some ex)
    with r show ?thesis by (simp add: main_trigger_def truthy_def)
  qed
qed

lemma main_trigger_shows_error:
  assumes "main_run_research e user_topic s w = (Some ex, s', w')"
  shows "main_trigger e True user_topic s w =
           (s'\<lparr>report_result :=
                  Some (str ''# Research on '' @ user_topic @ [10, 10]
                        @ str ''Error: '' @ exn_str ex),
                research_done := True\<rparr>,
            display (ShowError (str ''Error: '' @ exn_str ex)) w')"
  using assms by (simp add: main_trigger_def)

section \<open>The plan from the text of the triage agent\<close>

text \<open>
  A text that is a Python literal and no JSON (its strings are in single quotes), the
  dictionary it evaluates to, and an environment whose service returns the text and
  whose \<open>eval\<close> evaluates it.
\<close>

definition literal_text :: pystr where
  "literal_text = [123, 39] @ str ''topic'' @ [39] @ str '': '' @ [39] @ str ''moon'' @ [39]
     @ str '', '' @ [39] @ str ''search_queries'' @ [39] @ str '': ['' @ [39] @ str ''tides'' @ [39]
     @ str ''], '' @ [39] @ str ''focus_areas'' @ [39] @ str '': ['' @ [39] @ str ''orbit'' @ [39]
     @ str '']}''"

definition literal_value :: pyval where
  "literal_value =
     PyDict [(str ''topic'', PyStr (str ''moon'')),
             (str ''search_queries'', PyList [PyStr (str ''tides'')]),
             (str ''focus_areas'', PyList [PyStr (str ''orbit'')])]"

definition evaluating_env :: env where
  "evaluating_env =
     script_env (\<lambda>n m p. Returns (Some literal_text))
       (\<lambda>t. if t = literal_text then Inr literal_value else Inl (EvalError (str ''invalid syntax'')))"

text \<open>
  Claim C5, in main.py. Whenever the triage text starts with an opening brace, the plan
  is what \<open>eval\<close> makes of the text: no JSON decoder and no extraction take part. On the
  text above, which strict JSON parsing rejects (app.py falls back to the default
  plan), main.py takes the plan from the evaluated expression.
\<close>

theorem main_make_plan_evaluates:
  assumes "starts_with [LBRACE] (strip triage_output)"
      and "py_eval e triage_output = Inr v"
      and "ResearchPlan v = Inr plan"
  shows "main_make_plan e tp triage_output = plan"
  using assms by (simp add: main_make_plan_def)

lemma literal_text_not_json: "json_loads (payload literal_text) = Inl JSONDecodeError"
  unfolding literal_text_def by code_simp

theorem main_make_plan_evaluates_witness:
  \<open>main_make_plan evaluating_env (str ''sun'') literal_text =
     \<lparr>topic = str ''moon'', search_queries = [str ''tides''], focus_areas = [str ''orbit'']\<rparr> \<and>
   make_plan json_loads (str ''sun'') literal_text = Inr (default_plan (str ''sun''))\<close>
proof -
  have a: "starts_with [LBRACE] (strip literal_text)"
    unfolding literal_text_def by code_simp
  have b: "py_eval evaluating_env literal_text = Inr literal_value"
    by (simp add: evaluating_env_def script_env_def)
  have c: "ResearchPlan literal_value =
    Inr \<lparr>topic = str ''moon'', search_queries = [str ''tides''], focus_areas = [str ''orbit'']\<rparr>"
    by (simp add: ResearchPlan_def literal_value_def as_str_def as_str_list_def)
  from main_make_plan_evaluates [OF a b c] make_plan_fallback [of json_loads literal_text JSONDecodeError \<open>str ''sun''\<close>, OF literal_text_not_json]
  show ?thesis by simp
qed


text \<open>
  Claim C7 fails as stated, in app.py. A triage text whose object has an empty topic and
  empty lists passes the model's validation and becomes the plan; and for an empty
  topic the fallback plan has an empty topic and the empty string as its only query.
\<close>

theorem make_plan_unchecked:
  \<open>make_plan json_loads (str ''solar power'')
      (str ''{"topic": "", "search_queries": [], "focus_areas": []}'')
     = Inr \<lparr>topic = [], search_queries = [], focus_areas = []\<rparr> \<and>
   \<not> plan_inv \<lparr>topic = [], search_queries = [], focus_areas = []\<rparr> \<and>
   make_plan json_loads [] (str ''no plan'') = Inr (default_plan []) \<and>
   \<not> plan_inv (default_plan [])\<close>
proof -
  have a: \<open>json_loads (payload (str ''{"topic": "", "search_queries": [], "focus_areas": []}''))
            = Inr (PyDict [(str ''topic'', PyStr []), (str ''search_queries'', PyList []),
                           (str ''focus_areas'', PyList [])])\<close>
    by code_simp
  have b: \<open>json_loads (payload (str ''no plan'')) = Inl JSONDecodeError\<close>
    by code_simp
  show ?thesis
    using make_plan_fallback [of json_loads \<open>str ''no plan''\<close> JSONDecodeError "[]", OF b]
    unfolding make_plan_def safe_json_parse_def a
    by (simp add: ResearchPlan_def as_str_def as_str_list_def plan_inv_def default_plan_def)
qed

lemma plan_inv_default: "tp \<noteq> [] \<Longrightarrow> plan_inv (default_plan tp)"
  by (simp add: plan_inv_def default_plan_def)

text \<open>
  Claim C7 as amended. For a non-empty topic, a plan of the planning step either is the
  fallback plan, which satisfies the invariant, or is the validated mapping the decoder
  returned for the triage text, on which no non-emptiness is checked.
\<close>

theorem make_plan_invariant:
  assumes "tp \<noteq> []" and "make_plan lds tp triage_raw = Inr plan"
  shows "plan = default_plan tp \<and> plan_inv plan \<or>
         (\<exists>kvs. lds (payload triage_raw) = Inr (PyDict kvs) \<and> ResearchPlan (PyDict kvs) = Inr plan)"
proof (cases "lds (payload triage_raw)")
  case (Inl ex)
  with assms show ?thesis
    using make_plan_fallback [of lds triage_raw ex tp, OF Inl] plan_inv_default [of tp] by auto
next
  case (Inr v)
  then have s: "safe_json_parse lds triage_raw (fallback_plan tp) = v"
    by (simp add: safe_json_parse_def)
  show ?thesis
  proof (cases "ResearchPlan v")
    case rp: (Inr p)
    with assms(2) s have "p = plan" by (simp add: make_plan_def)
    moreover from rp obtain kvs where "v = PyDict kvs"
      by (cases v) (simp_all add: ResearchPlan_def)
    ultimately show ?thesis using Inr rp by blast
  next
    case rp: (Inl ex)
    with assms(2) s have "ex = ValidationError"
      by (cases ex) (simp_all add: make_plan_def)
    with assms rp s have "plan = default_plan tp"
      by (simp add: make_plan_def ResearchPlan_fallback)
    with assms(1) show ?thesis by (simp add: plan_inv_default)
  qed
qed

theorem make_plan_invariant_witness:
  \<open>make_plan json_loads (str ''solar power'') (str ''{"topic": 5}'')
     = Inr (default_plan (str ''solar power'')) \<and>
   plan_inv (default_plan (str ''solar power''))\<close>
proof -
  have a: \<open>json_loads (payload (str ''{"topic": 5}'')) = Inr (PyDict [(str ''topic'', PyInt 5)])\<close>
    by code_simp
  have v: \<open>ResearchPlan (PyDict [(str ''topic'', PyInt 5)]) = Inl ValidationError\<close>
    by (simp add: ResearchPlan_def)
  have m: \<open>make_plan json_loads (str ''solar power'') (str ''{"topic": 5}'')
             = Inr (default_plan (str ''solar power''))\<close>
    by (simp only: make_plan_def safe_json_parse_def a sum.case Let_def v exn.case
        ResearchPlan_fallback)
  have n: \<open>str ''solar power'' \<noteq> []\<close> by simp
  from make_plan_invariant [OF n m] m show ?thesis
    by (simp only: a v) (simp add: plan_inv_default)
qed

text \<open>The trigger starts no run for an empty topic.\<close>

lemma trigger_empty_topic: "trigger e start_button [] s w = (None, s, w)"
  by (simp add: trigger_def)

section \<open>The export file names\<close>

lemma ascii_entries_ascii_ucd: "ascii_entries ascii_ucd"
  by (simp add: ascii_entries_def ascii_ucd_def)

lemma do_title_ascii:
  assumes "ascii_entries u" and "\<forall>c\<in>set whole. c < 128"
  shows "cs = drop i whole \<Longrightarrow> prev = (0 < i \<and> is_letter (whole ! (i - 1))) \<Longrightarrow>
         do_title u whole prev i cs = map (spec_title_char whole) [i..<length whole]"
proof (induction cs arbitrary: i prev)
  case Nil
  then show ?case by simp
next
  case (Cons c cs)
  from Cons.prems(1) have i: "i < length whole"
    by (metis drop_all list.distinct(1) not_le)
  with Cons.prems(1) have c: "whole ! i = c" and cs: "cs = drop (Suc i) whole"
    by (simp_all add: Cons_nth_drop_Suc [symmetric])
  from i c assms(2) have a: "c < 128" by auto
  from assms(1) a have e1: "is_cased u c = is_letter c" and e2: "to_title_full u c = [to_upper c]"
    by (simp_all add: ascii_entries_def)
  from assms(1) i c a have e3: "lower_ucs4 u whole i = [to_lower c]"
    by (simp add: ascii_entries_def)
  have h: "(if prev then lower_ucs4 u whole i else to_title_full u c) = [spec_title_char whole i]"
    using Cons.prems(2) c e2 e3 by (auto simp: spec_title_char_def)
  have n: "is_cased u c = (0 < Suc i \<and> is_letter (whole ! (Suc i - 1)))"
    using e1 c by simp
  from Cons.IH [OF cs n] h i show ?case
    by (simp add: upt_conv_Cons)
qed

lemma title_ascii:
  assumes "ascii_entries u" and "\<forall>c\<in>set t. c < 128"
  shows "title u t = map (spec_title_char t) [0..<length t]"
  unfolding title_def using do_title_ascii [OF assms, of t 0 False] by simp

lemma spec_base_name_no_space: "32 \<notin> set (spec_base_name t)"
  by (auto simp: spec_base_name_def)

text \<open>
  Claim C9 fails as stated. main.py names the export after the topic with its spaces
  replaced and without title case; and in app.py an empty topic field gives the name
  \<open>Report.md\<close>.
\<close>

theorem main_report_file_name_not_title_case:
  \<open>main_report_file_name (str ''best shops in Agra'') = str ''best_shops_in_Agra.md'' \<and>
   main_report_file_name (str ''best shops in Agra'') \<noteq> str ''Best_Shops_In_Agra.md'' \<and>
   report_file_name ascii_ucd [] = str ''Report.md''\<close>
proof -
  have a: \<open>main_report_file_name (str ''best shops in Agra'') = str ''best_shops_in_Agra.md''\<close>
    by (simp add: main_report_file_name_def replace_def)
  have b: \<open>report_file_name ascii_ucd [] = str ''Report.md''\<close>
    by (simp add: report_file_name_def title_text_def title_def replace_def ascii_ucd_def
        is_letter_def to_upper_def to_lower_def is_upper_def is_lower_def)
  show ?thesis by (simp only: a b) simp
qed

text \<open>
  Claim C9 as amended, for app.py. For a non-empty topic the report is exported under
  \<open>str.title()\<close> of the topic with its spaces replaced by underscores, followed by \<open>.md\<close>,
  and the critique under the same base name followed by \<open>_Critique.md\<close>. For a topic of
  ASCII characters, and every character database with the ASCII entries, this base
  name is the one the specification words: a letter after a letter in lower case, any
  other letter in upper case, a space as an underscore; it has no space and the length
  of the topic. The topic \<open>best shops in Agra\<close> gives \<open>Best_Shops_In_Agra.md\<close>.
\<close>

theorem report_file_name_title_case:
  assumes "user_topic \<noteq> []"
  shows "report_file_name u user_topic = replace 32 95 (title u user_topic) @ str ''.md'' \<and>
         critique_file_name u user_topic
           = replace 32 95 (title u user_topic) @ str ''_Critique.md'' \<and>
         (ascii_entries u \<and> (\<forall>c\<in>set user_topic. c < 128) \<longrightarrow>
            report_file_name u user_topic = spec_base_name user_topic @ str ''.md'' \<and>
            critique_file_name u user_topic = spec_base_name user_topic @ str ''_Critique.md'' \<and>
            32 \<notin> set (spec_base_name user_topic) \<and>
            length (spec_base_name user_topic) = length user_topic)"
proof -
  have g: "report_file_name u user_topic = replace 32 95 (title u user_topic) @ str ''.md''"
    "critique_file_name u user_topic = replace 32 95 (title u user_topic) @ str ''_Critique.md''"
    using assms by (simp_all add: report_file_name_def critique_file_name_def title_text_def)
  have "replace 32 95 (title u user_topic) = spec_base_name user_topic"
    if "ascii_entries u" and "\<forall>c\<in>set user_topic. c < 128"
    using title_ascii [OF that] by (simp add: replace_def spec_base_name_def)
  with g spec_base_name_no_space [of user_topic] show ?thesis
    by (simp add: spec_base_name_def)
qed

theorem report_file_name_title_case_witness:
  \<open>report_file_name ascii_ucd (str ''best shops in Agra'') = str ''Best_Shops_In_Agra.md'' \<and>
   critique_file_name ascii_ucd (str ''best shops in Agra'')
     = str ''Best_Shops_In_Agra_Critique.md''\<close>
proof -
  have n: \<open>str ''best shops in Agra'' \<noteq> []\<close> by simp
  have a: \<open>\<forall>c\<in>set (str ''best shops in Agra''). c < 128\<close> by simp
  have b: \<open>spec_base_name (str ''best shops in Agra'') = str ''Best_Shops_In_Agra''\<close>
    by code_simp
  from report_file_name_title_case [OF n, of ascii_ucd] ascii_entries_ascii_ucd a
  have \<open>report_file_name ascii_ucd (str ''best shops in Agra'')
          = spec_base_name (str ''best shops in Agra'') @ str ''.md'' \<and>
        critique_file_name ascii_ucd (str ''best shops in Agra'')
          = spec_base_name (str ''best shops in Agra'') @ str ''_Critique.md''\<close>
    by blast
  then show ?thesis by (simp only: b) simp
qed

section \<open>Extraction from a fenced block\<close>

lemma not_space_delims [simp]:
  "\<not> is_space BACKTICK" "\<not> is_space LBRACE" "\<not> is_space RBRACE"
  by (simp_all add: is_space_def BACKTICK_def LBRACE_def RBRACE_def)

lemma closes_fence_ws:
  assumes "\<forall>c\<in>set ws. is_space c"
  shows "closes_fence (ws @ fence @ post)"
proof -
  have "dropWhile is_space (ws @ fence @ post) = dropWhile is_space (fence @ post)"
    using assms by (simp add: dropWhile_append2)
  also have "\<dots> = fence @ post" by (simp add: fence_def)
  finally show ?thesis by (simp add: closes_fence_def starts_with_def fence_def)
qed

lemma starts_with_fence_append:
  assumes "d \<noteq> []" and "last d = RBRACE"
  shows "starts_with fence (d @ rest) = starts_with fence d"
proof (cases d)
  case Nil
  with assms show ?thesis by simp
next
  case d1: (Cons a d1)
  show ?thesis
  proof (cases d1)
    case Nil
    with d1 assms show ?thesis
      by (auto simp: starts_with_def fence_def BACKTICK_def RBRACE_def)
  next
    case d2: (Cons b d2)
    show ?thesis
    proof (cases d2)
      case Nil
      with d1 d2 assms show ?thesis
        by (auto simp: starts_with_def fence_def BACKTICK_def RBRACE_def)
    next
      case (Cons c d3)
      with d1 d2 show ?thesis by (simp add: starts_with_def fence_def)
    qed
  qed
qed

lemma closes_fence_append:
  assumes "cs \<noteq> []" and "last cs = RBRACE"
  shows "closes_fence (cs @ rest) = closes_fence cs"
proof -
  have m: "RBRACE \<in> set cs" using assms last_in_set by metis
  then have a: "dropWhile is_space (cs @ rest) = dropWhile is_space cs @ rest"
    by (simp add: dropWhile_append1 [of RBRACE])
  have n: "dropWhile is_space cs \<noteq> []"
    using m not_space_delims(3) by (metis dropWhile_eq_Nil_conv)
  have "last (takeWhile is_space cs @ dropWhile is_space cs) = last (dropWhile is_space cs)"
    using n by (rule last_appendR)
  then have l: "last (dropWhile is_space cs) = RBRACE" using assms(2) by simp
  show ?thesis
    unfolding closes_fence_def a using starts_with_fence_append [OF n l] by simp
qed

lemma lazy_body_exact:
  assumes "xs \<noteq> []" and "last xs = RBRACE" and "\<not> early_close xs" and "closes_fence rest"
  shows "lazy_body (xs @ rest) = Some xs"
  using assms
proof (induction xs)
  case Nil
  then show ?case by simp
next
  case (Cons c cs)
  show ?case
  proof (cases "cs = []")
    case True
    with Cons.prems show ?thesis by simp
  next
    case False
    with Cons.prems have l: "last cs = RBRACE" and e: "\<not> early_close cs"
      and nc: "\<not> (c = RBRACE \<and> closes_fence cs)"
      by auto
    from nc closes_fence_append [OF False l, of rest]
    have "\<not> (c = RBRACE \<and> closes_fence (cs @ rest))" by simp
    with Cons.IH [OF False l e Cons.prems(4)] show ?thesis by auto
  qed
qed

lemma fence_body_exact:
  assumes "\<forall>c\<in>set ws. is_space c" and "obj = LBRACE # body @ [RBRACE]"
      and "\<not> early_close obj" and "closes_fence rest"
  shows "fence_body (ws @ obj @ rest) = Some obj"
proof -
  have d: "dropWhile is_space (ws @ obj @ rest) = LBRACE # (body @ [RBRACE]) @ rest"
    using assms(1,2) by (simp add: dropWhile_append2)
  have e: "\<not> early_close (body @ [RBRACE])"
    using assms(2,3) by (simp add: LBRACE_def RBRACE_def)
  have "lazy_body ((body @ [RBRACE]) @ rest) = Some (body @ [RBRACE])"
    by (rule lazy_body_exact) (use e assms(4) in simp_all)
  then show ?thesis
    unfolding fence_body_def d using assms(2) by simp
qed

lemma starts_with_json_ws:
  assumes "\<forall>c\<in>set ws. is_space c"
  shows "\<not> starts_with (str ''json'') (ws @ LBRACE # r)"
proof (cases ws)
  case Nil
  then show ?thesis by (simp add: starts_with_def LBRACE_def)
next
  case (Cons a ws')
  with assms have "is_space a" by simp
  then have "a \<noteq> 106" by (auto simp: is_space_def)
  with Cons show ?thesis by (simp add: starts_with_def)
qed

lemma fence_at_exact:
  assumes "tag = [] \<or> tag = str ''json''"
      and "\<forall>c\<in>set ws1. is_space c" and "\<forall>c\<in>set ws2. is_space c"
      and "obj = LBRACE # body @ [RBRACE]" and "\<not> early_close obj"
  shows "fence_at (fence @ tag @ ws1 @ obj @ ws2 @ fence @ post) = Some obj"
proof -
  have c: "closes_fence (ws2 @ fence @ post)" using assms(3) by (rule closes_fence_ws)
  have b: "fence_body (ws1 @ obj @ ws2 @ fence @ post) = Some obj"
    using assms(2,4,5) c by (rule fence_body_exact)
  have s: "starts_with fence (fence @ tag @ ws1 @ obj @ ws2 @ fence @ post)"
    by (simp add: starts_with_def fence_def)
  have d: "drop 3 (fence @ tag @ ws1 @ obj @ ws2 @ fence @ post)
             = tag @ ws1 @ obj @ ws2 @ fence @ post"
    by (simp add: fence_def)
  from assms(1) show ?thesis
  proof
    assume t: "tag = []"
    have "\<not> starts_with (str ''json'') (ws1 @ obj @ ws2 @ fence @ post)"
      using starts_with_json_ws [OF assms(2)] assms(4) by simp
    with s d t b show ?thesis by (simp add: fence_at_def Let_def)
  next
    assume t: "tag = str ''json''"
    then have "starts_with (str ''json'') (tag @ ws1 @ obj @ ws2 @ fence @ post)"
      by (simp add: starts_with_def)
    moreover have "drop 4 (tag @ ws1 @ obj @ ws2 @ fence @ post) = ws1 @ obj @ ws2 @ fence @ post"
      using t by simp
    ultimately show ?thesis using s d b by (simp add: fence_at_def Let_def)
  qed
qed

lemma search_fence_skip:
  "no_fence_within pre rest \<Longrightarrow> search_fence (pre @ rest) = search_fence rest"
  by (induction pre) auto

lemma no_backtick_no_fence:
  "BACKTICK \<notin> set pre \<Longrightarrow> no_fence_within pre rest"
  by (induction pre) (auto simp: fence_at_def starts_with_def fence_def)

text \<open>
  Claim C2 as amended. Let the text be \<open>pre\<close>, a triple backtick, the tag \<open>json\<close> or
  nothing, white space, \<open>obj\<close>, white space, a triple backtick and \<open>post\<close>, where \<open>obj\<close>
  starts with an opening and ends with a closing brace. If no closing brace inside
  \<open>obj\<close> is followed by optional white space and a triple backtick, and the fenced
  pattern matches at no position of \<open>pre\<close> (as when \<open>pre\<close> has no backtick, lemma
  \<open>no_backtick_no_fence\<close>), then \<open>extract_json\<close> returns exactly \<open>obj\<close>, whatever \<open>post\<close>
  is.
\<close>

theorem extract_json_fenced:
  assumes "tag = [] \<or> tag = str ''json''"
      and "\<forall>c\<in>set ws1. is_space c" and "\<forall>c\<in>set ws2. is_space c"
      and "obj = LBRACE # body @ [RBRACE]" and "\<not> early_close obj"
      and "no_fence_within pre (fence @ tag @ ws1 @ obj @ ws2 @ fence @ post)"
  shows "extract_json (pre @ fence @ tag @ ws1 @ obj @ ws2 @ fence @ post) = Some obj"
proof -
  let ?rest = "fence @ tag @ ws1 @ obj @ ws2 @ fence @ post"
  have f: "fence_at ?rest = Some obj" using assms(1-5) by (rule fence_at_exact)
  have "?rest = BACKTICK # tl ?rest" by (simp add: fence_def)
  then have "search_fence ?rest = Some obj"
    using f by (metis option.simps(5) search_fence.simps(2))
  then have "search_fence (pre @ ?rest) = Some obj"
    using search_fence_skip [OF assms(6)] by simp
  moreover have "pre @ ?rest \<noteq> []" by (simp add: fence_def)
  ultimately show ?thesis by (simp add: extract_json_def)
qed


text \<open>
  Claim C2 fails as stated. The object below is valid JSON; one of its strings holds a
  closing brace followed by a triple backtick. In a fenced block, with nothing around
  it, the lazy body stops at that brace and the extractor returns a part of the object.
\<close>

theorem extract_json_early_close:
  \<open>json_loads (str ''{"a": "}```"}'') = Inr (PyDict [(str ''a'', PyStr (str ''}```''))]) \<and>
   extract_json (str ''```json {"a": "}```"} ```'') = Some (str ''{"a": "}'') \<and>
   extract_json (str ''```json {"a": "}```"} ```'') \<noteq> Some (str ''{"a": "}```"}'')\<close>
proof -
  have a: \<open>json_loads (str ''{"a": "}```"}'') = Inr (PyDict [(str ''a'', PyStr (str ''}```''))])\<close>
    by code_simp
  have b: \<open>extract_json (str ''```json {"a": "}```"} ```'') = Some (str ''{"a": "}'')\<close>
    by code_simp
  show ?thesis by (simp only: a b) simp
qed

theorem extract_json_fenced_witness:
  \<open>extract_json (str ''Plan: ```json'' @ [10] @ str ''{"topic": "x", "n": {"k": 1}}'' @ [10]
      @ str ''``` Done {thanks}'')
   = Some (str ''{"topic": "x", "n": {"k": 1}}'')\<close>
proof -
  have t: \<open>str ''json'' = [] \<or> str ''json'' = str ''json''\<close> by simp
  have w: "\<forall>c\<in>set [10]. is_space c" by (simp add: is_space_def)
  have o: \<open>str ''{"topic": "x", "n": {"k": 1}}''
            = LBRACE # str ''"topic": "x", "n": {"k": 1}'' @ [RBRACE]\<close>
    by (simp add: LBRACE_def RBRACE_def)
  have e: \<open>\<not> early_close (str ''{"topic": "x", "n": {"k": 1}}'')\<close> by code_simp
  have p: \<open>no_fence_within (str ''Plan: '')
             (fence @ str ''json'' @ [10] @ str ''{"topic": "x", "n": {"k": 1}}'' @ [10]
              @ fence @ str '' Done {thanks}'')\<close>
    by (rule no_backtick_no_fence) (simp add: BACKTICK_def)
  from extract_json_fenced [OF t w w o e p] show ?thesis
    by (simp add: fence_def BACKTICK_def)
qed

end
